theory Spec2Isabelle
  imports Complex_Main "HOL-Library.AList" "HOL-Library.Char_ord" "HOL-Library.List_Lexorder"
begin

section \<open>Data model of \<^verbatim>\<open>callbacks.py\<close>\<close>

text \<open>
  The exceptions the Python code can raise. An operation that can raise returns the
  exception next to the state it leaves behind: Python keeps every mutation made before
  the raise.
\<close>

datatype py_error =
  KeyError | ZeroDivisionError | StopIteration | ValueError | TypeError
  | AttributeError | IndexError

text \<open>
  The scalars an aggregator records: \<^verbatim>\<open>iter\<close>, \<^verbatim>\<open>iter_wo_improvement\<close> and
  \<^verbatim>\<open>patience\<close> are Python ints, \<^verbatim>\<open>error\<close> is a float. The float is only stored,
  never computed with, so it is carried as a real number.
\<close>

datatype scalar = IntV int | FloatV real

text \<open>
  The results accumulator is a Python \<^verbatim>\<open>dict\<close> from series name to a list of scalars.
  A dict keeps insertion order, and \<^verbatim>\<open>plot_lines\<close> draws in that order, so it is an
  association list: \<^const>\<open>AList.update\<close> is \<^verbatim>\<open>d[k] = v\<close> (replace in place, or append
  a new key at the end), \<^const>\<open>map_of\<close> is the lookup, \<^const>\<open>AList.delete\<close> is
  \<^verbatim>\<open>del d[k]\<close>. A well-formed dict has distinct keys.
\<close>

type_synonym results = "(string \<times> scalar list) list"

definition has_key :: "results \<Rightarrow> string \<Rightarrow> bool" where
  "has_key d k = (k \<in> set (map fst d))"

text \<open>\<^verbatim>\<open>if k not in self.results: self.results[k] = []\<close>\<close>

definition init_series :: "string \<Rightarrow> results \<Rightarrow> results" where
  "init_series k d = (if \<not> has_key d k then AList.update k [] d else d)"

text \<open>
  \<^verbatim>\<open>self.results[k].append(v)\<close>. In the source the lookup always follows
  \<^const>\<open>init_series\<close> for the same key, so the key is present; on a missing key this
  function leaves the dict as it is.
\<close>

definition append_series :: "string \<Rightarrow> scalar \<Rightarrow> results \<Rightarrow> results" where
  "append_series k v d =
     (case map_of d k of
        Some vs \<Rightarrow> AList.update k (vs @ [v]) d
      | None \<Rightarrow> d)"

text \<open>The arguments of one \<^verbatim>\<open>before_iter\<close> call (the strategy argument is not read).\<close>

record iter_args =
  arg_iter :: int
  arg_error :: real
  arg_iter_wo_improvement :: int
  arg_patience :: int

section \<open>The metric aggregators\<close>

text \<open>
  \<^verbatim>\<open>PatienceStrategyCallback.before_iter\<close> (lines 100-121): \<^verbatim>\<open>self.results\<close> is the
  state, passed in and returned; the second component is the returned stop vote.
\<close>

definition patience_before_iter :: "results \<Rightarrow> iter_args \<Rightarrow> results \<times> bool" where
  "patience_before_iter d a =
     (let d1 = init_series ''iter'' d;
          d2 = init_series ''iter_wo_improvement'' d1;
          d3 = init_series ''patience'' d2;
          d4 = append_series ''iter'' (IntV (arg_iter a)) d3;
          d5 = append_series ''iter_wo_improvement'' (IntV (arg_iter_wo_improvement a)) d4;
          d6 = append_series ''patience'' (IntV (arg_patience a)) d5
      in (d6, False))"

text \<open>\<^verbatim>\<open>LearningCurveStrategyCallback.before_iter\<close> (lines 131-148).\<close>

definition learning_curve_before_iter :: "results \<Rightarrow> iter_args \<Rightarrow> results \<times> bool" where
  "learning_curve_before_iter d a =
     (let d1 = init_series ''iter'' d;
          d2 = init_series ''error'' d1;
          d3 = append_series ''iter'' (IntV (arg_iter a)) d2;
          d4 = append_series ''error'' (FloatV (arg_error a)) d3
      in (d4, False))"

text \<open>
  A sequence of \<^verbatim>\<open>before_iter\<close> calls on one aggregator: the accumulator is threaded
  through, the votes are collected in call order.
\<close>

fun before_iter_calls ::
  "(results \<Rightarrow> iter_args \<Rightarrow> results \<times> bool) \<Rightarrow> results \<Rightarrow> iter_args list \<Rightarrow> results \<times> bool list"
where
  "before_iter_calls f d [] = (d, [])"
| "before_iter_calls f d (a # as) =
     (case f d a of (d', vote) \<Rightarrow>
        (case before_iter_calls f d' as of (d'', votes) \<Rightarrow> (d'', vote # votes)))"

section \<open>Task metadata and the grid layout\<close>

text \<open>
  A value of the \<^verbatim>\<open>filters\<close> dict: \<^verbatim>\<open>None\<close> or a list of names. Both \<^verbatim>\<open>None\<close> and the
  empty list are falsy.
\<close>

datatype filter_value = NoneV | ListV "string list"

fun truthy :: "filter_value \<Rightarrow> bool" where
  "truthy NoneV = False"
| "truthy (ListV xs) = (xs \<noteq> [])"

fun elems :: "filter_value \<Rightarrow> string list" where
  "elems NoneV = []"
| "elems (ListV xs) = xs"

text \<open>
  \<^verbatim>\<open>filters\<close> is a dict from option name to value; \<^verbatim>\<open>filters[k]\<close> raises \<^verbatim>\<open>KeyError\<close>
  on a missing key.
\<close>

type_synonym filters = "string \<rightharpoonup> filter_value"

text \<open>
  \<^verbatim>\<open>np.intersect1d(a, b)\<close>: the sorted, unique values that are in both arrays (numpy's
  documented result). Strings are ordered lexicographically by character code.
\<close>

definition intersect1d :: "string list \<Rightarrow> string list \<Rightarrow> string list" where
  "intersect1d xs ys = sort (remdups (filter (\<lambda>x. x \<in> set ys) xs))"

text \<open>
  \<^verbatim>\<open>len(np.intersect1d(xs, filters[k])) if filters[k] else len(xs)\<close>, with the
  \<^verbatim>\<open>KeyError\<close> of the lookup (lines 181-184 and 186-189).
\<close>

definition filtered_len :: "filters \<Rightarrow> string \<Rightarrow> string list \<Rightarrow> py_error + nat" where
  "filtered_len f k xs =
     (case f k of
        None \<Rightarrow> Inl KeyError
      | Some fv \<Rightarrow>
          Inr (if truthy fv then length (intersect1d xs (elems fv)) else length xs))"

text \<open>
  The loop over \<^verbatim>\<open>curve_data.items()\<close> (lines 175-191), the items in the dict's order:
  each is the model name with its \<^verbatim>\<open>(eval_sets, metrics, _)\<close> tuple. The accumulator is
  \<^verbatim>\<open>total_curves\<close>. Every \<^verbatim>\<open>filters[...]\<close> lookup sits inside the loop body, and the
  \<^verbatim>\<open>continue\<close> of an excluded model skips the two later lookups.
\<close>

fun total_curves_loop ::
  "filters \<Rightarrow> (string \<times> string list \<times> string list \<times> 'x) list \<Rightarrow> nat \<Rightarrow> py_error + nat"
where
  "total_curves_loop f [] total_curves = Inr total_curves"
| "total_curves_loop f ((model, eval_sets, metrics, unused) # rest) total_curves =
     (case f ''models'' of
        None \<Rightarrow> Inl KeyError
      | Some fm \<Rightarrow>
          if truthy fm \<and> model \<notin> set (elems fm) then total_curves_loop f rest total_curves
          else
            (case filtered_len f ''metrics'' metrics of
               Inl e \<Rightarrow> Inl e
             | Inr metrics_n \<Rightarrow>
                 (case filtered_len f ''eval_sets'' eval_sets of
                    Inl e \<Rightarrow> Inl e
                  | Inr eval_sets_n \<Rightarrow>
                      total_curves_loop f rest (total_curves + metrics_n * eval_sets_n))))"

text \<open>
  The loop over \<^verbatim>\<open>strategies.items()\<close> (lines 197-199): each item is the strategy name
  with its \<^verbatim>\<open>(_, configs)\<close> pair. It does not read \<^verbatim>\<open>filters\<close>.
\<close>

fun total_configs_loop :: "(string \<times> 'y \<times> 'c list) list \<Rightarrow> nat \<Rightarrow> nat" where
  "total_configs_loop [] total_configs = total_configs"
| "total_configs_loop ((name, unused, configs) # rest) total_configs =
     total_configs_loop rest (total_configs + length configs)"

text \<open>
  \<^verbatim>\<open>int(np.ceil(np.sqrt(n)))\<close> in exact arithmetic: the least \<open>k\<close> with \<open>n \<le> k * k\<close>,
  found by counting up. (The source computes it in double precision, which agrees with
  the exact value for every panel count a figure can hold.)
\<close>

function ceil_sqrt_from :: "nat \<Rightarrow> nat \<Rightarrow> nat" where
  "ceil_sqrt_from k n = (if n \<le> k * k then k else ceil_sqrt_from (Suc k) n)"
  by pat_completeness auto
termination
  by (relation "measure (\<lambda>(k, n). n - k * k)") auto

definition ceil_sqrt :: "nat \<Rightarrow> nat" where
  "ceil_sqrt n = ceil_sqrt_from 0 n"

text \<open>
  \<^verbatim>\<open>int(np.ceil(num_axes / cols))\<close>: Python's true division of two ints raises
  \<^verbatim>\<open>ZeroDivisionError\<close> on a zero divisor; otherwise the ceiling of the quotient.
\<close>

definition ceil_div :: "nat \<Rightarrow> nat \<Rightarrow> py_error + nat" where
  "ceil_div n c = (if c = 0 then Inl ZeroDivisionError else Inr ((n + c - 1) div c))"

text \<open>The local variables of \<^verbatim>\<open>before_task\<close>. Lengths and their sums and products: naturals.\<close>

record task_locals =
  total_curves :: nat
  total_configs :: nat
  num_axes :: nat
  cols :: nat
  rows :: nat

text \<open>Lines 175-200: the counts, or the \<^verbatim>\<open>KeyError\<close> of a filter lookup.\<close>

definition count_axes ::
  "(string \<times> string list \<times> string list \<times> 'x) list \<Rightarrow> (string \<times> 'y \<times> 'c list) list \<Rightarrow>
   filters \<Rightarrow> py_error + (nat \<times> nat \<times> nat)"
where
  "count_axes curve_data strategies f =
     (case total_curves_loop f curve_data 0 of
        Inl e \<Rightarrow> Inl e
      | Inr tc \<Rightarrow>
          (let tcfg = total_configs_loop strategies 0
           in Inr (tc, tcfg, tc * tcfg)))"

text \<open>Lines 175-204: all locals, up to the point where the figure is created.\<close>

definition before_task_locals ::
  "(string \<times> string list \<times> string list \<times> 'x) list \<Rightarrow> (string \<times> 'y \<times> 'c list) list \<Rightarrow>
   filters \<Rightarrow> py_error + task_locals"
where
  "before_task_locals curve_data strategies f =
     (case count_axes curve_data strategies f of
        Inl e \<Rightarrow> Inl e
      | Inr (tc, tcfg, n) \<Rightarrow>
          (let c = ceil_sqrt n
           in case ceil_div n c of
                Inl e \<Rightarrow> Inl e
              | Inr r \<Rightarrow>
                  Inr \<lparr>total_curves = tc, total_configs = tcfg, num_axes = n,
                       cols = c, rows = r\<rparr>))"

section \<open>The rendering collaborator\<close>

text \<open>
  matplotlib and seaborn are outside the repository; they are modelled by what the
  callback asks of them. A drawn line keeps its label and data; a panel (an \<^verbatim>\<open>Axes\<close>)
  keeps its lines, title, axis labels, grid flag and whether its own legend is shown.
\<close>

record line2d =
  line_label :: string
  line_x :: "scalar list"
  line_y :: "scalar list"

record panel =
  panel_lines :: "line2d list"
  panel_title :: "string option"
  panel_xlabel :: "string option"
  panel_ylabel :: "string option"
  panel_grid :: bool
  panel_legend_visible :: bool

definition blank_panel :: panel where
  "blank_panel =
     \<lparr>panel_lines = [], panel_title = None, panel_xlabel = None, panel_ylabel = None,
      panel_grid = False, panel_legend_visible = True\<rparr>"

text \<open>What \<^verbatim>\<open>ax.get_legend_handles_labels()\<close> returns: handles and labels.\<close>

type_synonym legend_entries = "line2d list \<times> string list"

record figure =
  fig_rows :: nat
  fig_cols :: nat
  fig_size :: "nat \<times> nat"
  fig_panels :: "panel list"
  fig_suptitle :: "string option"
  fig_legend :: "legend_entries option"
  fig_tight_layout :: bool

text \<open>
  \<^verbatim>\<open>plt.subplots(rows, cols, figsize=...)\<close>: a figure whose \<^verbatim>\<open>axes\<close> list holds
  \<open>rows * cols\<close> blank panels in row-major order.
\<close>

definition subplots :: "nat \<Rightarrow> nat \<Rightarrow> nat \<times> nat \<Rightarrow> figure" where
  "subplots r c figsize =
     \<lparr>fig_rows = r, fig_cols = c, fig_size = figsize,
      fig_panels = replicate (r * c) blank_panel,
      fig_suptitle = None, fig_legend = None, fig_tight_layout = False\<rparr>"

text \<open>
  \<^verbatim>\<open>sns.lineplot(x=x, y=line, ax=ax, label=label)\<close>: one more labelled line on the
  panel. This is what seaborn does with a Y series that is not empty and as long as the
  X series, which is what the aggregators record; what it does with other data is not
  part of this model, and the claim about the number of lines is stated for such data.
\<close>

definition lineplot :: "scalar list \<Rightarrow> scalar list \<Rightarrow> panel \<Rightarrow> string \<Rightarrow> panel" where
  "lineplot x y ax label =
     ax\<lparr>panel_lines := panel_lines ax @ [\<lparr>line_label = label, line_x = x, line_y = y\<rparr>]\<rparr>"

text \<open>
  \<^verbatim>\<open>ax.get_legend_handles_labels()\<close>: the panel's lines that take part in a legend
  (matplotlib leaves out an empty label and a label starting with an underscore), with
  their labels.
\<close>

definition in_legend :: "line2d \<Rightarrow> bool" where
  "in_legend l = (case line_label l of [] \<Rightarrow> False | c # cs \<Rightarrow> c \<noteq> CHR ''_'')"

definition get_legend_handles_labels :: "panel \<Rightarrow> legend_entries" where
  "get_legend_handles_labels ax =
     (filter in_legend (panel_lines ax), map line_label (filter in_legend (panel_lines ax)))"

text \<open>\<^verbatim>\<open>os.path.join(path, file_name)\<close> on POSIX, for two components.\<close>

definition os_path_join :: "string \<Rightarrow> string \<Rightarrow> string" where
  "os_path_join a b =
     (if b \<noteq> [] \<and> hd b = CHR ''/'' then b
      else if a = [] \<or> last a = CHR ''/'' then a @ b
      else a @ ''/'' @ b)"

section \<open>The orchestration callback\<close>

text \<open>
  \<^verbatim>\<open>strategy_callback\<close> is a class, called with \<^verbatim>\<open>results=...\<close>: one of the two
  aggregators, with its \<^verbatim>\<open>name\<close> and \<^verbatim>\<open>file_name\<close> attributes.
\<close>

datatype cb_class = PatienceStrategyCallback | LearningCurveStrategyCallback

fun cb_name :: "cb_class \<Rightarrow> string" where
  "cb_name PatienceStrategyCallback = ''Patience Curves''"
| "cb_name LearningCurveStrategyCallback = ''Learning Curves''"

fun cb_file_name :: "cb_class \<Rightarrow> string" where
  "cb_file_name PatienceStrategyCallback = ''patience_curves''"
| "cb_file_name LearningCurveStrategyCallback = ''learning_curves''"

fun cb_before_iter :: "cb_class \<Rightarrow> results \<Rightarrow> iter_args \<Rightarrow> results \<times> bool" where
  "cb_before_iter PatienceStrategyCallback = patience_before_iter"
| "cb_before_iter LearningCurveStrategyCallback = learning_curve_before_iter"

text \<open>
  The results dict made by \<^verbatim>\<open>before_strategy\<close> is shared: \<^verbatim>\<open>self.results\<close> and the new
  aggregator's \<^verbatim>\<open>results\<close> are the same object, filled by the aggregator and read by
  \<^verbatim>\<open>after_strategy\<close>. Dicts therefore live in a store and are named by reference.
\<close>

type_synonym ref = nat

record store =
  next_ref :: ref
  dicts :: "ref \<rightharpoonup> results"

definition deref :: "store \<Rightarrow> ref \<Rightarrow> results" where
  "deref st r = (case dicts st r of Some d \<Rightarrow> d | None \<Rightarrow> [])"

text \<open>
  An entry of a strategy's \<^verbatim>\<open>callbacks\<close> list: an aggregator made by
  \<^verbatim>\<open>before_strategy\<close> (its class and its results dict), or some other observer.
\<close>

datatype callback_obj = Aggregator cb_class ref | Observer nat

text \<open>
  What the callback reads of a strategy object: its \<^verbatim>\<open>callbacks\<close> attribute
  (\<^verbatim>\<open>None\<close> or a list) and its \<^verbatim>\<open>str()\<close>.
\<close>

record strategy =
  callbacks :: "callback_obj list option"
  strategy_str :: string

text \<open>
  The fields of a \<^verbatim>\<open>GraphSimulationCallback\<close> (lines 159-167). \<^verbatim>\<open>axes\<close> is the
  generator over the panels of the figure made with it: the indices of the panels it has
  not yielded yet.
\<close>

record gsc =
  strategy_callback :: cb_class
  path :: "string option"
  figure :: "figure option"
  axes :: "nat list option"
  legend :: "legend_entries option"
  results :: "ref option"

definition init_gsc :: "cb_class \<Rightarrow> string option \<Rightarrow> gsc" where
  "init_gsc cls p =
     \<lparr>strategy_callback = cls, path = p, figure = None, axes = None, legend = None,
      results = None\<rparr>"

text \<open>
  \<^verbatim>\<open>before_task\<close> (lines 169-208). An exception leaves the object as it was: both
  assignments come last.
\<close>

definition before_task ::
  "gsc \<Rightarrow> (string \<times> string list \<times> string list \<times> 'x) list \<Rightarrow> (string \<times> 'y \<times> 'c list) list \<Rightarrow>
   filters \<Rightarrow> py_error option \<times> gsc"
where
  "before_task g curve_data strategies f =
     (case before_task_locals curve_data strategies f of
        Inl e \<Rightarrow> (Some e, g)
      | Inr l \<Rightarrow>
          (let fig = subplots (rows l) (cols l) (cols l * 4, rows l * 4)
           in (None, g\<lparr>figure := Some fig, axes := Some [0..<length (fig_panels fig)]\<rparr>)))"

text \<open>
  The data \<^const>\<open>lineplot\<close> is modelled for: the X series is not empty and every series
  is as long as it.
\<close>

definition plottable :: "scalar list \<Rightarrow> results \<Rightarrow> bool" where
  "plottable x kwargs = (x \<noteq> [] \<and> list_all (\<lambda>(label, line). length line = length x) kwargs)"

text \<open>
  The signature is \<^verbatim>\<open>def plot_lines(self, x: str, ax, **kwargs)\<close> (line 253), and the
  callback calls it with \<^verbatim>\<open>x\<close> and \<^verbatim>\<open>ax\<close> given by position. A keyword argument named
  like one of the three parameters is then a second value for that parameter: Python
  raises \<^verbatim>\<open>TypeError\<close> when it binds the arguments, before the body runs.
\<close>

definition names_parameter :: "results \<Rightarrow> bool" where
  "names_parameter kwargs =
     list_ex (\<lambda>(label, line). label = ''self'' \<or> label = ''x'' \<or> label = ''ax'') kwargs"

text \<open>
  \<^verbatim>\<open>plot_lines\<close> (lines 253-269), called as line 245 calls it. \<^verbatim>\<open>kwargs\<close> is the dict of
  keyword arguments, in the order given. The result is the exception, if any, and the
  panel as it is left.
\<close>

definition plot_lines :: "string \<Rightarrow> panel \<Rightarrow> results \<Rightarrow> py_error option \<times> panel" where
  "plot_lines x_label ax kwargs =
     (if names_parameter kwargs then (Some TypeError, ax)
      else if length kwargs < 2 then (Some ValueError, ax)
      else
        (case map_of kwargs x_label of
           None \<Rightarrow> (Some KeyError, ax)
         | Some x \<Rightarrow>
             (let kwargs' = AList.delete x_label kwargs;
                  ax1 = foldl (\<lambda>a (label, line). lineplot x line a label) ax kwargs'
              in (None,
                  ax1\<lparr>panel_legend_visible := False, panel_xlabel := Some x_label,
                      panel_ylabel := Some x_label, panel_grid := True\<rparr>))))"

text \<open>
  \<^verbatim>\<open>before_strategy\<close> (lines 228-238): a fresh empty dict, an aggregator bound to it, and
  the aggregator attached to the strategy. It raises nothing.
\<close>

definition before_strategy :: "gsc \<Rightarrow> store \<Rightarrow> strategy \<Rightarrow> gsc \<times> store \<times> strategy" where
  "before_strategy g st s =
     (let r = next_ref st;
          st' = st\<lparr>next_ref := Suc r, dicts := (dicts st)(r \<mapsto> [])\<rparr>;
          g' = g\<lparr>results := Some r\<rparr>;
          new_callback = Aggregator (strategy_callback g) r
      in (g', st',
          (case callbacks s of
             Some (c # cs) \<Rightarrow> s\<lparr>callbacks := Some ((c # cs) @ [new_callback])\<rparr>
           | Some [] \<Rightarrow> s\<lparr>callbacks := Some [new_callback]\<rparr>
           | None \<Rightarrow> s\<lparr>callbacks := Some [new_callback]\<rparr>)))"

text \<open>
  \<^verbatim>\<open>next(self.axes)\<close>: \<^verbatim>\<open>TypeError\<close> when there is no generator, \<^verbatim>\<open>StopIteration\<close>
  when it is exhausted, else the next panel and the generator advanced.
\<close>

fun gen_next :: "nat list option \<Rightarrow> py_error + (nat \<times> nat list)" where
  "gen_next None = Inl TypeError"
| "gen_next (Some []) = Inl StopIteration"
| "gen_next (Some (i # rest)) = Inr (i, rest)"

text \<open>
  Panel \<open>i\<close> of the callback's figure, read and written. The generator only exists
  together with its figure, and only yields indices of that figure's panels.
\<close>

definition get_panel :: "gsc \<Rightarrow> nat \<Rightarrow> panel" where
  "get_panel g i = (case figure g of Some fig \<Rightarrow> fig_panels fig ! i | None \<Rightarrow> blank_panel)"

definition set_panel :: "nat \<Rightarrow> panel \<Rightarrow> gsc \<Rightarrow> gsc" where
  "set_panel i ax g =
     g\<lparr>figure := map_option (\<lambda>fig. fig\<lparr>fig_panels := (fig_panels fig)[i := ax]\<rparr>) (figure g)\<rparr>"

text \<open>The panel title: \<^verbatim>\<open>f"{str(strategy)}\n{model}-{metric}-{eval_set}"\<close>.\<close>

definition title_of :: "strategy \<Rightarrow> string \<Rightarrow> string \<Rightarrow> string \<Rightarrow> string" where
  "title_of s model metric eval_set =
     strategy_str s @ [CHR 0x0A] @ model @ ''-'' @ metric @ ''-'' @ eval_set"

text \<open>
  \<^verbatim>\<open>after_strategy\<close> (lines 240-251). The statements run in the source's order, and an
  exception returns the callback and the strategy as mutated so far: the panel stays
  consumed when \<^verbatim>\<open>plot_lines\<close> raises, and the aggregator stays attached.
  \<^verbatim>\<open>**self.results\<close> raises \<^verbatim>\<open>TypeError\<close> when \<^verbatim>\<open>self.results\<close> is \<^verbatim>\<open>None\<close>;
  \<^verbatim>\<open>strategy.callbacks.pop()\<close> raises \<^verbatim>\<open>AttributeError\<close> on \<^verbatim>\<open>None\<close> and
  \<^verbatim>\<open>IndexError\<close> on an empty list.
\<close>

definition after_strategy ::
  "gsc \<Rightarrow> store \<Rightarrow> strategy \<Rightarrow> string \<Rightarrow> string \<Rightarrow> string \<Rightarrow> py_error option \<times> gsc \<times> strategy"
where
  "after_strategy g st s model metric eval_set =
     (case gen_next (axes g) of
        Inl e \<Rightarrow> (Some e, g, s)
      | Inr (i, rest) \<Rightarrow>
          (let g1 = g\<lparr>axes := Some rest\<rparr>
           in case results g1 of
                None \<Rightarrow> (Some TypeError, g1, s)
              | Some r \<Rightarrow>
                  (case plot_lines ''iter'' (get_panel g1 i) (deref st r) of
                     (Some e, ax) \<Rightarrow> (Some e, set_panel i ax g1, s)
                   | (None, ax) \<Rightarrow>
                       (let g2 = set_panel i ax g1;
                            g3 = (if legend g2 = None
                                  then g2\<lparr>legend := Some (get_legend_handles_labels ax)\<rparr>
                                  else g2);
                            g4 = set_panel i
                                   (ax\<lparr>panel_title := Some (title_of s model metric eval_set)\<rparr>) g3
                        in case callbacks s of
                             None \<Rightarrow> (Some AttributeError, g4, s)
                           | Some [] \<Rightarrow> (Some IndexError, g4, s)
                           | Some (c # cs) \<Rightarrow>
                               (None, g4, s\<lparr>callbacks := Some (butlast (c # cs))\<rparr>)))))"

text \<open>
  \<^verbatim>\<open>after_task\<close> (lines 215-226). The second argument is the log of \<^verbatim>\<open>savefig\<close> calls
  made so far, each the target path with the figure as saved. \<^verbatim>\<open>self.figure.suptitle\<close>
  raises \<^verbatim>\<open>AttributeError\<close> when there is no figure, \<^verbatim>\<open>*self.legend\<close> raises
  \<^verbatim>\<open>TypeError\<close> when no legend was captured, and \<^verbatim>\<open>os.path.join(None, ...)\<close> raises
  \<^verbatim>\<open>TypeError\<close>.
\<close>

definition after_task ::
  "gsc \<Rightarrow> (string \<times> figure) list \<Rightarrow> py_error option \<times> gsc \<times> (string \<times> figure) list"
where
  "after_task g saved =
     (case figure g of
        None \<Rightarrow> (Some AttributeError, g, saved)
      | Some fig \<Rightarrow>
          (let fig1 = fig\<lparr>fig_suptitle := Some (cb_name (strategy_callback g))\<rparr>
           in case legend g of
                None \<Rightarrow> (Some TypeError, g\<lparr>figure := Some fig1\<rparr>, saved)
              | Some lg \<Rightarrow>
                  (let fig2 = fig1\<lparr>fig_legend := Some lg, fig_tight_layout := True\<rparr>;
                       g2 = g\<lparr>figure := Some fig2\<rparr>;
                       file_name = cb_file_name (strategy_callback g)
                   in case path g of
                        None \<Rightarrow> (Some TypeError, g2, saved)
                      | Some p \<Rightarrow> (None, g2, saved @ [(os_path_join p file_name, fig2)]))))"

section \<open>Runs of a task\<close>

text \<open>
  What a task driver does to one callback between \<^verbatim>\<open>before_task\<close> and
  \<^verbatim>\<open>after_task\<close>: calls of \<^verbatim>\<open>before_strategy\<close> and \<^verbatim>\<open>after_strategy\<close>. Each call
  comes with the store and the strategy object as they are at that moment, so every
  interleaving with iterations and with other code is covered. The callback is threaded
  through, exceptions included.
\<close>

datatype call =
  BeforeStrategy store strategy
  | AfterStrategy store strategy string string string

fun is_after :: "call \<Rightarrow> bool" where
  "is_after (AfterStrategy st s model metric eval_set) = True"
| "is_after (BeforeStrategy st s) = False"

fun do_call :: "gsc \<Rightarrow> call \<Rightarrow> gsc" where
  "do_call g (BeforeStrategy st s) = fst (before_strategy g st s)"
| "do_call g (AfterStrategy st s model metric eval_set) =
     fst (snd (after_strategy g st s model metric eval_set))"

fun do_calls :: "gsc \<Rightarrow> call list \<Rightarrow> gsc" where
  "do_calls g [] = g"
| "do_calls g (c # cs) = do_calls (do_call g c) cs"

text \<open>
  A strategy's iteration as the callback protocol has it: \<^verbatim>\<open>before_iter\<close> on every
  attached observer. An aggregator updates its dict in the store; its vote is dropped
  here (it is always \<open>False\<close>).
\<close>

fun notify :: "iter_args \<Rightarrow> store \<Rightarrow> callback_obj \<Rightarrow> store" where
  "notify a st (Aggregator cls r) =
     st\<lparr>dicts := (dicts st)(r \<mapsto> fst (cb_before_iter cls (deref st r) a))\<rparr>"
| "notify a st (Observer n) = st"

definition iterate :: "store \<Rightarrow> strategy \<Rightarrow> iter_args \<Rightarrow> store" where
  "iterate st s a =
     (case callbacks s of None \<Rightarrow> st | Some cs \<Rightarrow> foldl (notify a) st cs)"

text \<open>The number of \<^verbatim>\<open>after_strategy\<close> calls in a run.\<close>

definition count_after :: "call list \<Rightarrow> nat" where
  "count_after cs = length (filter is_after cs)"

text \<open>
  One strategy run as the driver performs it: \<^verbatim>\<open>before_strategy\<close>, the iterations
  (each notifies the observers attached at that time), \<^verbatim>\<open>after_strategy\<close>.
\<close>

definition strategy_run ::
  "gsc \<Rightarrow> store \<Rightarrow> strategy \<Rightarrow> string \<Rightarrow> string \<Rightarrow> string \<Rightarrow> iter_args list \<Rightarrow>
   py_error option \<times> gsc \<times> store \<times> strategy"
where
  "strategy_run g st s model metric eval_set its =
     (case before_strategy g st s of
        (g1, st1, s1) \<Rightarrow>
          (let st2 = foldl (\<lambda>st' a. iterate st' s1 a) st1 its
           in case after_strategy g1 st2 s1 model metric eval_set of
                (e, g2, s2) \<Rightarrow> (e, g2, st2, s2)))"

text \<open>
  Several strategy runs in a row on the same strategy object, each with its own
  iterations; the outcome of each run is collected.
\<close>

fun strategy_runs ::
  "gsc \<Rightarrow> store \<Rightarrow> strategy \<Rightarrow> string \<Rightarrow> string \<Rightarrow> string \<Rightarrow> iter_args list list \<Rightarrow>
   py_error option list \<times> gsc \<times> store \<times> strategy"
where
  "strategy_runs g st s model metric eval_set [] = ([], g, st, s)"
| "strategy_runs g st s model metric eval_set (its # rest) =
     (case strategy_run g st s model metric eval_set its of
        (e, g', st', s') \<Rightarrow>
          (case strategy_runs g' st' s' model metric eval_set rest of
             (es, g'', st'', s'') \<Rightarrow> (e # es, g'', st'', s'')))"

section \<open>Invariants of a task run\<close>

text \<open>The number of panels of the callback's figure; none without a figure.\<close>

definition n_panels :: "gsc \<Rightarrow> nat" where
  "n_panels g = (case figure g of None \<Rightarrow> 0 | Some fig \<Rightarrow> length (fig_panels fig))"

text \<open>
  The state of the panel generator after \<open>k\<close> panels of a grid of \<open>N\<close> have been
  yielded: the generator holds the indices from \<open>k\<close> on, and the panels it has not
  yielded are untouched.
\<close>

definition grid_state :: "nat \<Rightarrow> nat \<Rightarrow> gsc \<Rightarrow> bool" where
  "grid_state N k g =
     (figure g \<noteq> None \<and> n_panels g = N \<and> axes g = Some [k..<N]
        \<and> (\<forall>j. k \<le> j \<and> j < N \<longrightarrow> get_panel g j = blank_panel))"

section \<open>The grid sizing as the specification words it\<close>

text \<open>
  The specification's algorithm for \<^verbatim>\<open>total_curves\<close>, to compare with the loops above:
  a model is excluded when the models filter is set and does not list it; the effective
  metrics are the model's metrics intersected with the filter when the filter is set,
  else all of them; likewise for eval sets; the products of the two sizes are summed
  over the models that are not excluded.
\<close>

definition excluded :: "filter_value \<Rightarrow> string \<Rightarrow> bool" where
  "excluded fm model = (truthy fm \<and> model \<notin> set (elems fm))"

definition effective_count :: "string list \<Rightarrow> filter_value \<Rightarrow> nat" where
  "effective_count xs fv = (if truthy fv then card (set xs \<inter> set (elems fv)) else length xs)"

definition spec_total_curves ::
  "(string \<times> string list \<times> string list \<times> 'x) list \<Rightarrow> filter_value \<Rightarrow> filter_value \<Rightarrow>
   filter_value \<Rightarrow> nat"
where
  "spec_total_curves curve_data fm fme fev =
     sum_list
       (map (\<lambda>(model, eval_sets, metrics, unused).
               effective_count metrics fme * effective_count eval_sets fev)
          (filter (\<lambda>(model, data). \<not> excluded fm model) curve_data))"

definition spec_total_configs :: "(string \<times> 'y \<times> 'c list) list \<Rightarrow> nat" where
  "spec_total_configs strategies =
     sum_list (map (\<lambda>(name, unused, configs). length configs) strategies)"

text \<open>
  Whether the loop of \<^verbatim>\<open>before_task\<close> gets to a filter lookup that can fail: the
  \<^verbatim>\<open>"models"\<close> lookup is the first statement of the body, so any model reaches it; the
  \<^verbatim>\<open>"metrics"\<close> and \<^verbatim>\<open>"eval_sets"\<close> lookups are reached by a model that is not excluded.
\<close>

definition reaches_missing_key ::
  "filters \<Rightarrow> (string \<times> string list \<times> string list \<times> 'x) list \<Rightarrow> bool"
where
  "reaches_missing_key f curve_data =
     (case f ''models'' of
        None \<Rightarrow> curve_data \<noteq> []
      | Some fm \<Rightarrow>
          (f ''metrics'' = None \<or> f ''eval_sets'' = None) \<and>
          list_ex (\<lambda>(model, data). \<not> excluded fm model) curve_data)"

text \<open>The entries of a strategy's observer list; none when the attribute is \<^verbatim>\<open>None\<close>.\<close>

definition observer_list :: "strategy \<Rightarrow> callback_obj list" where
  "observer_list s = (case callbacks s of None \<Rightarrow> [] | Some cs \<Rightarrow> cs)"

section \<open>Example inputs\<close>

text \<open>
  The task of the specification's grid-sizing example: one model with two eval sets and
  two metrics, one strategy with two configurations; and filter dicts for it.
\<close>

definition example_curve_data :: "(string \<times> string list \<times> string list \<times> unit) list" where
  "example_curve_data = [(''m1'', [''train'', ''val''], [''mse'', ''mae''], ())]"

definition example_strategies :: "(string \<times> unit \<times> nat list) list" where
  "example_strategies = [(''s1'', (), [1, 2])]"

definition no_filters :: filters where
  "no_filters = [''models'' \<mapsto> ListV [], ''metrics'' \<mapsto> ListV [], ''eval_sets'' \<mapsto> ListV []]"

definition mse_filter :: filters where
  "mse_filter =
     [''models'' \<mapsto> ListV [], ''metrics'' \<mapsto> ListV [''mse''], ''eval_sets'' \<mapsto> NoneV]"

definition other_model_filter :: filters where
  "other_model_filter = [''models'' \<mapsto> ListV [''m2'']]"

definition empty_store :: store where
  "empty_store = \<lparr>next_ref = 0, dicts = Map.empty\<rparr>"

definition fresh_strategy :: strategy where
  "fresh_strategy = \<lparr>callbacks = None, strategy_str = ''s1''\<rparr>"

definition two_iterations :: "iter_args list" where
  "two_iterations =
     [\<lparr>arg_iter = 0, arg_error = 1 / 2, arg_iter_wo_improvement = 0, arg_patience = 5\<rparr>,
      \<lparr>arg_iter = 1, arg_error = 1 / 4, arg_iter_wo_improvement = 1, arg_patience = 5\<rparr>]"

definition one_iteration :: "iter_args list" where
  "one_iteration =
     [\<lparr>arg_iter = 7, arg_error = 1 / 8, arg_iter_wo_improvement = 3, arg_patience = 9\<rparr>]"

text \<open>
  A learning-curve callback after \<^verbatim>\<open>before_task\<close> on the example task; a strategy
  that already has an observer; the callback, strategy and store after
  \<^verbatim>\<open>before_strategy\<close> and two iterations; a store whose dict has other series labels;
  and the callback after one whole strategy run of a first task, and after it went
  through \<^verbatim>\<open>after_task\<close>, a second \<^verbatim>\<open>before_task\<close> and one more strategy run.
\<close>

definition example_task :: gsc where
  "example_task =
     snd (before_task (init_gsc LearningCurveStrategyCallback (Some ''out''))
            example_curve_data example_strategies no_filters)"

definition observed_strategy :: strategy where
  "observed_strategy = \<lparr>callbacks = Some [Observer 1], strategy_str = ''s1''\<rparr>"

definition attached_callback :: gsc where
  "attached_callback = fst (before_strategy example_task empty_store observed_strategy)"

definition attached_strategy :: strategy where
  "attached_strategy = snd (snd (before_strategy example_task empty_store observed_strategy))"

definition iterated_store :: store where
  "iterated_store =
     foldl (\<lambda>st a. iterate st attached_strategy a)
       (fst (snd (before_strategy example_task empty_store observed_strategy))) two_iterations"

definition other_store :: store where
  "other_store =
     \<lparr>next_ref = 1, dicts = [0 \<mapsto> [(''iter'', [IntV 3]), (''loss'', [FloatV 2])]]\<rparr>"

definition first_task :: gsc where
  "first_task =
     fst (snd (strategy_run example_task empty_store fresh_strategy
                 ''m1'' ''mse'' ''train'' two_iterations))"

definition second_task :: gsc where
  "second_task =
     fst (snd (strategy_run
                 (snd (before_task (fst (snd (after_task first_task [])))
                         example_curve_data example_strategies no_filters))
                 empty_store fresh_strategy ''m1'' ''mse'' ''train'' one_iteration))"

section \<open>Aggregators: proofs\<close>

lemma patience_first_call:
  "patience_before_iter [] a =
     ([(''iter'', [IntV (arg_iter a)]),
       (''iter_wo_improvement'', [IntV (arg_iter_wo_improvement a)]),
       (''patience'', [IntV (arg_patience a)])], False)"
  by (simp add: patience_before_iter_def init_series_def append_series_def has_key_def)

lemma patience_later_call:
  "patience_before_iter
     [(''iter'', xs), (''iter_wo_improvement'', ys), (''patience'', zs)] a =
     ([(''iter'', xs @ [IntV (arg_iter a)]),
       (''iter_wo_improvement'', ys @ [IntV (arg_iter_wo_improvement a)]),
       (''patience'', zs @ [IntV (arg_patience a)])], False)"
  by (simp add: patience_before_iter_def init_series_def append_series_def has_key_def)

lemma patience_calls_from_full:
  "before_iter_calls patience_before_iter
     [(''iter'', xs), (''iter_wo_improvement'', ys), (''patience'', zs)] as =
     ([(''iter'', xs @ map (\<lambda>a. IntV (arg_iter a)) as),
       (''iter_wo_improvement'', ys @ map (\<lambda>a. IntV (arg_iter_wo_improvement a)) as),
       (''patience'', zs @ map (\<lambda>a. IntV (arg_patience a)) as)],
      replicate (length as) False)"
proof (induction as arbitrary: xs ys zs)
  case Nil
  show ?case by simp
next
  case (Cons a as)
  show ?case
    by (simp add: patience_later_call Cons.IH)
qed

lemma patience_calls_from_empty:
  "before_iter_calls patience_before_iter [] (a # as) =
     ([(''iter'', map (\<lambda>a. IntV (arg_iter a)) (a # as)),
       (''iter_wo_improvement'', map (\<lambda>a. IntV (arg_iter_wo_improvement a)) (a # as)),
       (''patience'', map (\<lambda>a. IntV (arg_patience a)) (a # as))],
      replicate (length (a # as)) False)"
  by (simp add: patience_first_call patience_calls_from_full)

lemma learning_curve_first_call:
  "learning_curve_before_iter [] a =
     ([(''iter'', [IntV (arg_iter a)]), (''error'', [FloatV (arg_error a)])], False)"
  by (simp add: learning_curve_before_iter_def init_series_def append_series_def has_key_def)

lemma learning_curve_later_call:
  "learning_curve_before_iter [(''iter'', xs), (''error'', ys)] a =
     ([(''iter'', xs @ [IntV (arg_iter a)]), (''error'', ys @ [FloatV (arg_error a)])], False)"
  by (simp add: learning_curve_before_iter_def init_series_def append_series_def has_key_def)

lemma learning_curve_calls_from_full:
  "before_iter_calls learning_curve_before_iter [(''iter'', xs), (''error'', ys)] as =
     ([(''iter'', xs @ map (\<lambda>a. IntV (arg_iter a)) as),
       (''error'', ys @ map (\<lambda>a. FloatV (arg_error a)) as)],
      replicate (length as) False)"
proof (induction as arbitrary: xs ys)
  case Nil
  show ?case by simp
next
  case (Cons a as)
  show ?case
    by (simp add: learning_curve_later_call Cons.IH)
qed

lemma learning_curve_calls_from_empty:
  "before_iter_calls learning_curve_before_iter [] (a # as) =
     ([(''iter'', map (\<lambda>a. IntV (arg_iter a)) (a # as)),
       (''error'', map (\<lambda>a. FloatV (arg_error a)) (a # as))],
      replicate (length (a # as)) False)"
  by (simp add: learning_curve_first_call learning_curve_calls_from_full)

text \<open>
  C4. After any sequence of \<open>K\<close> \<^verbatim>\<open>before_iter\<close> calls on an aggregator built over an empty
  accumulator, the accumulator holds exactly the tracked series, in the order of their
  creation, each with the \<open>K\<close> values of its argument in call order (for \<open>K = 0\<close> it is
  still the empty mapping); every key in it is a tracked one; and every call returned
  \<open>False\<close>.
\<close>

theorem aggregators_record_every_call:
  "fst (before_iter_calls patience_before_iter [] as) =
     (if as = [] then []
      else [(''iter'', map (\<lambda>a. IntV (arg_iter a)) as),
            (''iter_wo_improvement'', map (\<lambda>a. IntV (arg_iter_wo_improvement a)) as),
            (''patience'', map (\<lambda>a. IntV (arg_patience a)) as)])
   \<and> snd (before_iter_calls patience_before_iter [] as) = replicate (length as) False
   \<and> (\<forall>k vs. map_of (fst (before_iter_calls patience_before_iter [] as)) k = Some vs \<longrightarrow>
          k \<in> {''iter'', ''iter_wo_improvement'', ''patience''} \<and> length vs = length as)
   \<and> fst (before_iter_calls learning_curve_before_iter [] as) =
     (if as = [] then []
      else [(''iter'', map (\<lambda>a. IntV (arg_iter a)) as),
            (''error'', map (\<lambda>a. FloatV (arg_error a)) as)])
   \<and> snd (before_iter_calls learning_curve_before_iter [] as) = replicate (length as) False
   \<and> (\<forall>k vs. map_of (fst (before_iter_calls learning_curve_before_iter [] as)) k = Some vs \<longrightarrow>
          k \<in> {''iter'', ''error''} \<and> length vs = length as)"
proof (cases as)
  case Nil
  then show ?thesis by simp
next
  case (Cons a as')
  have p: "before_iter_calls patience_before_iter [] as =
     ([(''iter'', map (\<lambda>a. IntV (arg_iter a)) as),
       (''iter_wo_improvement'', map (\<lambda>a. IntV (arg_iter_wo_improvement a)) as),
       (''patience'', map (\<lambda>a. IntV (arg_patience a)) as)],
      replicate (length as) False)"
    unfolding Cons by (rule patience_calls_from_empty)
  have l: "before_iter_calls learning_curve_before_iter [] as =
     ([(''iter'', map (\<lambda>a. IntV (arg_iter a)) as),
       (''error'', map (\<lambda>a. FloatV (arg_error a)) as)],
      replicate (length as) False)"
    unfolding Cons by (rule learning_curve_calls_from_empty)
  have ne: "as \<noteq> []" using Cons by simp
  show ?thesis
    unfolding p l using ne by (auto split: if_splits)
qed

theorem aggregators_record_every_call_witness:
  "fst (before_iter_calls patience_before_iter []
      [\<lparr>arg_iter = 0, arg_error = 1 / 2, arg_iter_wo_improvement = 0, arg_patience = 5\<rparr>,
       \<lparr>arg_iter = 1, arg_error = 1 / 4, arg_iter_wo_improvement = 1, arg_patience = 5\<rparr>]) =
     [(''iter'', [IntV 0, IntV 1]),
      (''iter_wo_improvement'', [IntV 0, IntV 1]),
      (''patience'', [IntV 5, IntV 5])]
   \<and> snd (before_iter_calls patience_before_iter []
      [\<lparr>arg_iter = 0, arg_error = 1 / 2, arg_iter_wo_improvement = 0, arg_patience = 5\<rparr>,
       \<lparr>arg_iter = 1, arg_error = 1 / 4, arg_iter_wo_improvement = 1, arg_patience = 5\<rparr>]) =
     [False, False]
   \<and> fst (before_iter_calls learning_curve_before_iter []
      [\<lparr>arg_iter = 0, arg_error = 1 / 2, arg_iter_wo_improvement = 0, arg_patience = 5\<rparr>,
       \<lparr>arg_iter = 1, arg_error = 1 / 4, arg_iter_wo_improvement = 1, arg_patience = 5\<rparr>]) =
     [(''iter'', [IntV 0, IntV 1]), (''error'', [FloatV (1 / 2), FloatV (1 / 4)])]"
  using aggregators_record_every_call
    [of "[\<lparr>arg_iter = 0, arg_error = 1 / 2, arg_iter_wo_improvement = 0, arg_patience = 5\<rparr>,
          \<lparr>arg_iter = 1, arg_error = 1 / 4, arg_iter_wo_improvement = 1, arg_patience = 5\<rparr>]"]
  by simp

section \<open>The layout arithmetic: proofs\<close>

lemma ceil_sqrt_from_least:
  "(\<forall>j<k. j * j < n) \<Longrightarrow> n \<le> ceil_sqrt_from k n * ceil_sqrt_from k n \<and> (\<forall>j < ceil_sqrt_from k n. j * j < n)"
proof (induction k n rule: ceil_sqrt_from.induct)
  case (1 k n)
  show ?case
  proof (cases "n \<le> k * k")
    case True
    with "1.prems" show ?thesis by simp
  next
    case False
    have "\<forall>j<Suc k. j * j < n"
      using "1.prems" False by (auto simp: less_Suc_eq)
    from "1.IH"[OF False this] False show ?thesis
      by (subst (1 2 3) ceil_sqrt_from.simps) simp
  qed
qed

lemma ceil_sqrt_bounds:
  "n \<le> ceil_sqrt n * ceil_sqrt n" "j < ceil_sqrt n \<Longrightarrow> j * j < n"
  using ceil_sqrt_from_least[of 0 n] by (auto simp: ceil_sqrt_def)

lemma ceil_sqrt_real: "ceil_sqrt n = nat \<lceil>sqrt (real n)\<rceil>"
proof -
  let ?c = "ceil_sqrt n"
  have up: "sqrt (real n) \<le> real ?c"
  proof -
    have "real n \<le> real ?c * real ?c"
      using ceil_sqrt_bounds(1)[of n] by (metis of_nat_le_iff of_nat_mult)
    then show ?thesis
      by (metis of_nat_0_le_iff real_le_lsqrt power2_eq_square)
  qed
  have lo: "real ?c - 1 < sqrt (real n)"
  proof (cases "?c = 0")
    case True
    then show ?thesis by simp (metis neg_less_0_iff_less order_less_le_trans real_sqrt_ge_zero of_nat_0_le_iff zero_less_one)
  next
    case False
    then have "?c - 1 < ?c" by simp
    then have "(?c - 1) * (?c - 1) < n" by (rule ceil_sqrt_bounds(2))
    then have "real (?c - 1) * real (?c - 1) < real n"
      by (metis of_nat_less_iff of_nat_mult)
    then have "real (?c - 1) < sqrt (real n)"
      by (metis real_less_rsqrt power2_eq_square)
    with False show ?thesis by (simp add: of_nat_diff)
  qed
  have "\<lceil>sqrt (real n)\<rceil> = int ?c"
    using up lo by (intro ceiling_unique) auto
  then show ?thesis by simp
qed

lemma ceil_div_lower_nat: "0 < c \<Longrightarrow> ((n + c - 1) div c) * c \<le> n + c - (1::nat)"
  by simp

lemma ceil_div_upper_nat: "0 < c \<Longrightarrow> n + c - (1::nat) < ((n + c - 1) div c) * c + c"
  using dividend_less_div_times[of c "n + c - 1"] by simp

lemma ceil_div_covers: "0 < c \<Longrightarrow> n \<le> ((n + c - 1) div c) * (c::nat)"
  using ceil_div_upper_nat[of c n] by simp

lemma ceil_div_lower_real: "0 < c \<Longrightarrow> real ((n + c - 1) div c) - 1 < real n / real c"
proof -
  assume c: "0 < c"
  let ?m = "(n + c - 1) div c"
  have "real (?m * c) \<le> real (n + c - 1)" using ceil_div_lower_nat[OF c, of n] by (simp only: of_nat_le_iff)
  then have "real ?m * real c < real n + real c" using c by (simp add: of_nat_diff)
  then have "(real ?m - 1) * real c < real n" by (simp add: algebra_simps)
  then show ?thesis using c by (simp add: pos_less_divide_eq)
qed

lemma ceil_div_upper_real: "0 < c \<Longrightarrow> real n / real c \<le> real ((n + c - 1) div c)"
proof -
  assume c: "0 < c"
  have "real n \<le> real (((n + c - 1) div c) * c)" using ceil_div_covers[OF c, of n] by (simp only: of_nat_le_iff)
  then show ?thesis using c by (simp add: pos_divide_le_eq)
qed

lemma ceil_div_real:
  "c \<noteq> 0 \<Longrightarrow> ceil_div n c = Inr (nat \<lceil>real n / real c\<rceil>)"
proof -
  assume c: "c \<noteq> 0"
  have "\<lceil>real n / real c\<rceil> = int ((n + c - 1) div c)"
    using ceil_div_lower_real[of c n] ceil_div_upper_real[of c n] c by (intro ceiling_unique) auto
  then show ?thesis using c by (simp add: ceil_div_def)
qed

section \<open>The counting loops: proofs\<close>

lemma length_intersect1d: "length (intersect1d xs ys) = card (set xs \<inter> set ys)"
proof -
  have "set (filter (\<lambda>x. x \<in> set ys) xs) = set xs \<inter> set ys" by auto
  then show ?thesis
    by (simp add: intersect1d_def length_remdups_card_conv)
qed

lemma effective_count_set_like:
  "distinct xs \<Longrightarrow>
   effective_count xs fv = card (if truthy fv then set xs \<inter> set (elems fv) else set xs)"
  by (simp add: effective_count_def distinct_card)

lemma filtered_len_present:
  "f k = Some fv \<Longrightarrow> filtered_len f k xs = Inr (effective_count xs fv)"
  by (simp add: filtered_len_def effective_count_def length_intersect1d)

lemma filtered_len_missing: "f k = None \<Longrightarrow> filtered_len f k xs = Inl KeyError"
  by (simp add: filtered_len_def)

lemma total_curves_loop_present:
  assumes "f ''models'' = Some fm" "f ''metrics'' = Some fme" "f ''eval_sets'' = Some fev"
  shows "total_curves_loop f cd acc = Inr (acc + spec_total_curves cd fm fme fev)"
proof (induction cd arbitrary: acc)
  case Nil
  show ?case by (simp add: spec_total_curves_def)
next
  case (Cons item cd)
  obtain model eval_sets metrics unused where item: "item = (model, eval_sets, metrics, unused)"
    by (cases item) auto
  have step: "spec_total_curves (item # cd) fm fme fev =
      (if excluded fm model then 0
       else effective_count metrics fme * effective_count eval_sets fev)
      + spec_total_curves cd fm fme fev"
    by (simp add: spec_total_curves_def item)
  show ?case
    unfolding step
    by (simp add: item assms filtered_len_present Cons.IH excluded_def)
qed

lemma total_configs_loop_sum:
  "total_configs_loop sts acc = acc + spec_total_configs sts"
proof (induction sts arbitrary: acc)
  case Nil
  show ?case by (simp add: spec_total_configs_def)
next
  case (Cons item sts)
  obtain name unused configs where item: "item = (name, unused, configs)"
    by (cases item) auto
  have step: "spec_total_configs (item # sts) = length configs + spec_total_configs sts"
    by (simp add: spec_total_configs_def item)
  show ?case unfolding step by (simp add: item Cons.IH)
qed

lemma count_axes_present:
  assumes "f ''models'' = Some fm" "f ''metrics'' = Some fme" "f ''eval_sets'' = Some fev"
  shows "count_axes cd sts f =
     Inr (spec_total_curves cd fm fme fev, spec_total_configs sts,
          spec_total_curves cd fm fme fev * spec_total_configs sts)"
  by (simp add: count_axes_def total_curves_loop_present[OF assms] total_configs_loop_sum Let_def)

lemma count_axes_shape:
  "count_axes cd sts f = Inr (tc, tcfg, n) \<Longrightarrow> tcfg = spec_total_configs sts \<and> n = tc * tcfg"
  by (auto simp: count_axes_def total_configs_loop_sum Let_def split: sum.splits)

lemma ceil_sqrt_zero: "ceil_sqrt 0 = 0"
  by (simp add: ceil_sqrt_def)

lemma locals_zero:
  "count_axes cd sts f = Inr (tc, tcfg, 0) \<Longrightarrow> before_task_locals cd sts f = Inl ZeroDivisionError"
  by (simp add: before_task_locals_def ceil_sqrt_zero ceil_div_def)

lemma total_curves_loop_no_models:
  "f ''models'' = None \<Longrightarrow>
   total_curves_loop f cd acc = (if cd = [] then Inr acc else Inl KeyError)"
  by (cases cd) auto

lemma total_curves_loop_missing:
  assumes "f ''models'' = Some fm" "f ''metrics'' = None \<or> f ''eval_sets'' = None"
  shows "total_curves_loop f cd acc =
     (if list_ex (\<lambda>(model, data). \<not> excluded fm model) cd then Inl KeyError else Inr acc)"
proof (induction cd arbitrary: acc)
  case Nil
  show ?case by simp
next
  case (Cons item cd)
  obtain model eval_sets metrics unused where item: "item = (model, eval_sets, metrics, unused)"
    by (cases item) auto
  show ?case
  proof (cases "excluded fm model")
    case True
    then show ?thesis using assms(1) by (simp add: item Cons.IH excluded_def)
  next
    case False
    from assms(2) have "filtered_len f ''metrics'' metrics = Inl KeyError
        \<or> (\<exists>n. filtered_len f ''metrics'' metrics = Inr n
               \<and> filtered_len f ''eval_sets'' eval_sets = Inl KeyError)"
      by (auto simp: filtered_len_def split: option.splits)
    then show ?thesis using False assms(1)
      by (auto simp: item excluded_def)
  qed
qed

lemma missing_key_loop:
  assumes "f ''models'' = None \<or> f ''metrics'' = None \<or> f ''eval_sets'' = None"
  shows "total_curves_loop f cd 0 =
     (if reaches_missing_key f cd then Inl KeyError else Inr 0)"
proof (cases "f ''models''")
  case None
  then show ?thesis
    by (simp add: total_curves_loop_no_models reaches_missing_key_def)
next
  case (Some fm)
  with assms have "f ''metrics'' = None \<or> f ''eval_sets'' = None" by simp
  then show ?thesis
    using total_curves_loop_missing[where f = f and fm = fm and cd = cd and acc = 0] Some
    by (simp add: reaches_missing_key_def)
qed

lemma ceil_sqrt_pos: "0 < n \<Longrightarrow> 0 < ceil_sqrt n"
  using ceil_sqrt_bounds(1)[of n] by (cases "ceil_sqrt n") auto

lemma locals_positive:
  assumes "count_axes cd sts f = Inr (tc, tcfg, n)" "0 < n"
  shows "before_task_locals cd sts f =
     Inr \<lparr>total_curves = tc, total_configs = tcfg, num_axes = n,
          cols = nat \<lceil>sqrt (real n)\<rceil>,
          rows = nat \<lceil>real n / real (nat \<lceil>sqrt (real n)\<rceil>)\<rceil>\<rparr>"
proof -
  have c: "ceil_sqrt n \<noteq> 0" using ceil_sqrt_pos[OF assms(2)] by simp
  show ?thesis
    using assms(1) ceil_div_real[OF c, of n]
    by (simp add: before_task_locals_def Let_def ceil_sqrt_real[symmetric])
qed

section \<open>Example inputs: evaluation\<close>

lemma example_total_curves:
  "spec_total_curves example_curve_data (ListV []) (ListV []) (ListV []) = 4"
  by (simp add: spec_total_curves_def example_curve_data_def effective_count_def excluded_def)

lemma example_total_curves_mse:
  "spec_total_curves example_curve_data (ListV []) (ListV [''mse'']) NoneV = 2"
  by (simp add: spec_total_curves_def example_curve_data_def effective_count_def excluded_def)

lemma example_total_configs: "spec_total_configs example_strategies = 2"
  by (simp add: spec_total_configs_def example_strategies_def)

lemma ceiling_sqrt_8: "nat \<lceil>sqrt 8\<rceil> = 3"
  using ceil_sqrt_real[of 8] by (simp add: ceil_sqrt_def)

lemma ceiling_sqrt_4: "nat \<lceil>sqrt 4\<rceil> = 2"
  using ceil_sqrt_real[of 4] by (simp add: ceil_sqrt_def)

lemma example_counts_no_filters:
  "count_axes example_curve_data example_strategies no_filters = Inr (4, 2, 8)"
  by (simp add: count_axes_def example_curve_data_def example_strategies_def no_filters_def
        filtered_len_def)

lemma example_counts_mse:
  "count_axes example_curve_data example_strategies mse_filter = Inr (2, 2, 4)"
  by (simp add: count_axes_def example_curve_data_def example_strategies_def mse_filter_def
        filtered_len_def intersect1d_def)

lemma example_counts_empty:
  "count_axes ([] :: (string \<times> string list \<times> string list \<times> unit) list)
     example_strategies no_filters = Inr (0, 2, 0)"
  by (simp add: count_axes_def example_strategies_def)

lemma example_counts_excluded:
  "count_axes example_curve_data example_strategies other_model_filter = Inr (0, 2, 0)"
  by (simp add: count_axes_def example_curve_data_def example_strategies_def
        other_model_filter_def)

lemma example_counts_no_configs:
  "count_axes example_curve_data ([] :: (string \<times> unit \<times> nat list) list) no_filters =
     Inr (4, 0, 0)"
  by (simp add: count_axes_def example_curve_data_def no_filters_def filtered_len_def)

section \<open>Claims about \<^verbatim>\<open>before_task\<close>\<close>

text \<open>
  C2. With the three filter keys present, the loops of \<^verbatim>\<open>before_task\<close> compute what the
  specification says: \<^verbatim>\<open>total_curves\<close> is the sum, over the models that the models
  filter does not exclude, of the number of effective metrics times the number of
  effective eval sets (each counted as the source counts it: the size of the
  intersection with a set filter, else the length of the collection, which for a
  set-like collection is its cardinality); \<^verbatim>\<open>total_configs\<close> is the sum of the
  configuration counts;
  \<^verbatim>\<open>num_axes\<close> is their product. When \<^verbatim>\<open>num_axes\<close> is positive, \<^verbatim>\<open>cols\<close> is the
  ceiling of its square root and \<^verbatim>\<open>rows\<close> the ceiling of \<^verbatim>\<open>num_axes / cols\<close>. The
  witness is the specification's own example: 4 curves, 2 configurations, 8 panels on a
  3 by 3 grid; and with the metrics filter \<^verbatim>\<open>["mse"]\<close>, 2 curves and 4 panels on a 2 by
  2 grid.
\<close>

theorem before_task_grid_sizing:
  assumes "f ''models'' = Some fm" and "f ''metrics'' = Some fme"
    and "f ''eval_sets'' = Some fev"
  shows "count_axes cd sts f =
           Inr (spec_total_curves cd fm fme fev, spec_total_configs sts,
                spec_total_curves cd fm fme fev * spec_total_configs sts)
       \<and> (0 < spec_total_curves cd fm fme fev * spec_total_configs sts \<longrightarrow>
            before_task_locals cd sts f =
              Inr \<lparr>total_curves = spec_total_curves cd fm fme fev,
                   total_configs = spec_total_configs sts,
                   num_axes = spec_total_curves cd fm fme fev * spec_total_configs sts,
                   cols = nat \<lceil>sqrt (real (spec_total_curves cd fm fme fev
                                            * spec_total_configs sts))\<rceil>,
                   rows = nat \<lceil>real (spec_total_curves cd fm fme fev * spec_total_configs sts)
                             / real (nat \<lceil>sqrt (real (spec_total_curves cd fm fme fev
                                                     * spec_total_configs sts))\<rceil>)\<rceil>\<rparr>)"
proof -
  have counts: "count_axes cd sts f =
           Inr (spec_total_curves cd fm fme fev, spec_total_configs sts,
                spec_total_curves cd fm fme fev * spec_total_configs sts)"
    using assms by (rule count_axes_present)
  show ?thesis
  proof (intro conjI impI)
    show "count_axes cd sts f =
           Inr (spec_total_curves cd fm fme fev, spec_total_configs sts,
                spec_total_curves cd fm fme fev * spec_total_configs sts)"
      by (rule counts)
  next
    assume "0 < spec_total_curves cd fm fme fev * spec_total_configs sts"
    with counts show "before_task_locals cd sts f =
              Inr \<lparr>total_curves = spec_total_curves cd fm fme fev,
                   total_configs = spec_total_configs sts,
                   num_axes = spec_total_curves cd fm fme fev * spec_total_configs sts,
                   cols = nat \<lceil>sqrt (real (spec_total_curves cd fm fme fev
                                            * spec_total_configs sts))\<rceil>,
                   rows = nat \<lceil>real (spec_total_curves cd fm fme fev * spec_total_configs sts)
                             / real (nat \<lceil>sqrt (real (spec_total_curves cd fm fme fev
                                                     * spec_total_configs sts))\<rceil>)\<rceil>\<rparr>"
      by (rule locals_positive)
  qed
qed

theorem before_task_grid_sizing_witness:
  "no_filters ''models'' = Some (ListV []) \<and> no_filters ''metrics'' = Some (ListV [])
   \<and> no_filters ''eval_sets'' = Some (ListV [])
   \<and> before_task_locals example_curve_data example_strategies no_filters =
       Inr \<lparr>total_curves = 4, total_configs = 2, num_axes = 8, cols = 3, rows = 3\<rparr>
   \<and> mse_filter ''metrics'' = Some (ListV [''mse''])
   \<and> before_task_locals example_curve_data example_strategies mse_filter =
       Inr \<lparr>total_curves = 2, total_configs = 2, num_axes = 4, cols = 2, rows = 2\<rparr>"
  using before_task_grid_sizing[of no_filters "ListV []" "ListV []" "ListV []"
          example_curve_data example_strategies]
    before_task_grid_sizing[of mse_filter "ListV []" "ListV [''mse'']" NoneV
          example_curve_data example_strategies]
  by (simp add: no_filters_def mse_filter_def example_total_curves example_total_curves_mse
        example_total_configs ceiling_sqrt_8 ceiling_sqrt_4)

text \<open>
  C7. \<^verbatim>\<open>total_configs\<close> is the sum of the configuration counts over the strategies and
  nothing else: two calls with the same strategies compute the same \<^verbatim>\<open>total_configs\<close>
  whatever their filters (and whatever their curve data), and in each call
  \<^verbatim>\<open>num_axes = total_curves * total_configs\<close>.
\<close>

theorem total_configs_ignores_filters:
  assumes "count_axes cd1 sts f1 = Inr (tc1, tcfg1, n1)"
    and "count_axes cd2 sts f2 = Inr (tc2, tcfg2, n2)"
  shows "tcfg1 = spec_total_configs sts \<and> tcfg2 = tcfg1
       \<and> n1 = tc1 * tcfg1 \<and> n2 = tc2 * tcfg2"
  using count_axes_shape[OF assms(1)] count_axes_shape[OF assms(2)] by simp

theorem total_configs_ignores_filters_witness:
  "count_axes example_curve_data example_strategies no_filters = Inr (4, 2, 8)
   \<and> count_axes example_curve_data example_strategies mse_filter = Inr (2, 2, 4)
   \<and> (2::nat) = spec_total_configs example_strategies \<and> (8::nat) = 4 * 2 \<and> (4::nat) = 2 * 2"
  using total_configs_ignores_filters[OF example_counts_no_filters example_counts_mse]
    example_counts_no_filters example_counts_mse
  by simp

text \<open>
  C10. Whenever the counts come out with \<^verbatim>\<open>num_axes = 0\<close>, \<^verbatim>\<open>cols\<close> is 0 and the
  division \<^verbatim>\<open>num_axes / cols\<close> raises \<^verbatim>\<open>ZeroDivisionError\<close>: \<^verbatim>\<open>before_task\<close> fails and
  leaves the callback as it was, with no figure made. The witness covers empty curve
  data, every model excluded by the models filter, and no configurations.
\<close>

theorem zero_axes_division_by_zero:
  assumes "count_axes cd sts f = Inr (tc, tcfg, 0)"
  shows "before_task_locals cd sts f = Inl ZeroDivisionError
       \<and> before_task g cd sts f = (Some ZeroDivisionError, g)"
  using locals_zero[OF assms] by (simp add: before_task_def)

theorem zero_axes_division_by_zero_witness:
  "count_axes ([] :: (string \<times> string list \<times> string list \<times> unit) list)
     example_strategies no_filters = Inr (0, 2, 0)
   \<and> before_task (init_gsc PatienceStrategyCallback None)
        ([] :: (string \<times> string list \<times> string list \<times> unit) list) example_strategies no_filters =
      (Some ZeroDivisionError, init_gsc PatienceStrategyCallback None)
   \<and> count_axes example_curve_data example_strategies other_model_filter = Inr (0, 2, 0)
   \<and> before_task (init_gsc PatienceStrategyCallback None)
        example_curve_data example_strategies other_model_filter =
      (Some ZeroDivisionError, init_gsc PatienceStrategyCallback None)
   \<and> count_axes example_curve_data ([] :: (string \<times> unit \<times> nat list) list) no_filters =
      Inr (4, 0, 0)
   \<and> before_task (init_gsc PatienceStrategyCallback None)
        example_curve_data ([] :: (string \<times> unit \<times> nat list) list) no_filters =
      (Some ZeroDivisionError, init_gsc PatienceStrategyCallback None)"
  using zero_axes_division_by_zero[OF example_counts_empty,
          of "init_gsc PatienceStrategyCallback None"]
    zero_axes_division_by_zero[OF example_counts_excluded,
          of "init_gsc PatienceStrategyCallback None"]
    zero_axes_division_by_zero[OF example_counts_no_configs,
          of "init_gsc PatienceStrategyCallback None"]
    example_counts_empty example_counts_excluded example_counts_no_configs
  by simp

text \<open>
  C9, as the code has it. When any of the keys \<^verbatim>\<open>"models"\<close>, \<^verbatim>\<open>"metrics"\<close>,
  \<^verbatim>\<open>"eval_sets"\<close> is absent, \<^verbatim>\<open>before_task\<close> fails before a figure is made and leaves
  the callback as it was. The failure is a \<^verbatim>\<open>KeyError\<close> when the loop reaches a lookup
  of an absent key: \<^verbatim>\<open>"models"\<close> is absent and there is at least one model, or
  \<^verbatim>\<open>"models"\<close> is present and some model passes it. Otherwise no lookup fails,
  \<^verbatim>\<open>total_curves\<close> stays 0 and the failure is the \<^verbatim>\<open>ZeroDivisionError\<close> of the layout.
\<close>

theorem missing_filter_key_fails:
  assumes "f ''models'' = None \<or> f ''metrics'' = None \<or> f ''eval_sets'' = None"
  shows "before_task g cd sts f =
     (Some (if reaches_missing_key f cd then KeyError else ZeroDivisionError), g)"
proof (cases "reaches_missing_key f cd")
  case True
  then have "total_curves_loop f cd 0 = Inl KeyError"
    using missing_key_loop[OF assms, of cd] by simp
  then show ?thesis using True
    by (simp add: before_task_def before_task_locals_def count_axes_def)
next
  case False
  then have "total_curves_loop f cd 0 = Inr 0"
    using missing_key_loop[OF assms, of cd] by simp
  then have "count_axes cd sts f = Inr (0, total_configs_loop sts 0, 0)"
    by (simp add: count_axes_def)
  then have "before_task_locals cd sts f = Inl ZeroDivisionError"
    by (rule locals_zero)
  then show ?thesis using False by (simp add: before_task_def)
qed

theorem missing_filter_key_fails_witness:
  "other_model_filter ''metrics'' = None
   \<and> before_task (init_gsc PatienceStrategyCallback None)
        example_curve_data example_strategies other_model_filter =
      (Some ZeroDivisionError, init_gsc PatienceStrategyCallback None)
   \<and> (Map.empty :: filters) ''models'' = None
   \<and> before_task (init_gsc PatienceStrategyCallback None)
        example_curve_data example_strategies (Map.empty :: filters) =
      (Some KeyError, init_gsc PatienceStrategyCallback None)"
  using missing_filter_key_fails[of other_model_filter
          "init_gsc PatienceStrategyCallback None" example_curve_data example_strategies]
    missing_filter_key_fails[of "Map.empty :: filters"
          "init_gsc PatienceStrategyCallback None" example_curve_data example_strategies]
  by (simp add: other_model_filter_def reaches_missing_key_def example_curve_data_def
        excluded_def)

text \<open>
  C9 as stated fails: with no filter key at all and empty curve data, and with only
  \<^verbatim>\<open>"models"\<close> present and excluding the one model, no lookup of an absent key is
  reached and the error is \<^verbatim>\<open>ZeroDivisionError\<close>, not a key-lookup error.
\<close>

theorem missing_filter_key_counterexample:
  "(Map.empty :: filters) ''models'' = None
   \<and> before_task (init_gsc PatienceStrategyCallback None)
        ([] :: (string \<times> string list \<times> string list \<times> unit) list) example_strategies Map.empty =
      (Some ZeroDivisionError, init_gsc PatienceStrategyCallback None)
   \<and> other_model_filter ''metrics'' = None
   \<and> before_task (init_gsc PatienceStrategyCallback None)
        example_curve_data example_strategies other_model_filter =
      (Some ZeroDivisionError, init_gsc PatienceStrategyCallback None)"
  by (simp add: before_task_def before_task_locals_def count_axes_def ceil_sqrt_zero ceil_div_def
        other_model_filter_def example_curve_data_def)

section \<open>Line plots: proofs\<close>

lemma foldl_lineplot:
  "foldl (\<lambda>a (label, line). lineplot x line a label) ax kw =
     ax\<lparr>panel_lines := panel_lines ax
          @ map (\<lambda>(label, line). \<lparr>line_label = label, line_x = x, line_y = line\<rparr>) kw\<rparr>"
proof (induction kw arbitrary: ax)
  case Nil
  show ?case by simp
next
  case (Cons item kw)
  obtain label line where item: "item = (label, line)" by (cases item) auto
  show ?case by (simp add: item Cons.IH) (simp add: lineplot_def)
qed

lemma length_delete_present:
  "distinct (map fst kw) \<Longrightarrow> map_of kw x = Some v \<Longrightarrow>
   Suc (length (AList.delete x kw)) = length kw"
proof (induction kw)
  case Nil
  then show ?case by simp
next
  case (Cons item kw)
  obtain k w where item: "item = (k, w)" by (cases item) auto
  show ?case
  proof (cases "k = x")
    case True
    have "x \<notin> fst ` set kw" using Cons.prems(1) True by (simp add: item)
    then have "AList.delete x kw = kw"
      by (simp add: AList.delete_eq filter_id_conv) (auto simp: image_iff)
    then show ?thesis using True by (simp add: item AList.delete_eq)
  next
    case False
    then show ?thesis using Cons by (simp add: item AList.delete_eq)
  qed
qed

lemma plot_lines_rebinds:
  "names_parameter kwargs \<Longrightarrow> plot_lines x ax kwargs = (Some TypeError, ax)"
  by (simp add: plot_lines_def)

lemma plot_lines_too_few:
  "\<not> names_parameter kwargs \<Longrightarrow> length kwargs < 2 \<Longrightarrow>
   plot_lines x ax kwargs = (Some ValueError, ax)"
  by (simp add: plot_lines_def)

lemma plot_lines_ok:
  "\<not> names_parameter kwargs \<Longrightarrow> 2 \<le> length kwargs \<Longrightarrow> map_of kwargs x = Some xs \<Longrightarrow>
   plot_lines x ax kwargs =
     (None,
      ax\<lparr>panel_lines := panel_lines ax
             @ map (\<lambda>(label, line). \<lparr>line_label = label, line_x = xs, line_y = line\<rparr>)
                 (AList.delete x kwargs),
         panel_legend_visible := False, panel_xlabel := Some x, panel_ylabel := Some x,
         panel_grid := True\<rparr>)"
  by (simp add: plot_lines_def foldl_lineplot Let_def)

lemma plot_lines_error:
  "plot_lines x ax kw = (Some e, ax') \<Longrightarrow> e \<noteq> StopIteration"
  by (auto simp: plot_lines_def Let_def split: if_splits option.splits)

section \<open>Panels, the generator and the strategy runs: proofs\<close>

lemma set_panel_fields:
  "axes (set_panel i ax g) = axes g"
  "legend (set_panel i ax g) = legend g"
  "results (set_panel i ax g) = results g"
  "path (set_panel i ax g) = path g"
  "strategy_callback (set_panel i ax g) = strategy_callback g"
  "n_panels (set_panel i ax g) = n_panels g"
  "(figure (set_panel i ax g) = None) = (figure g = None)"
  by (simp_all add: set_panel_def n_panels_def split: option.splits)

lemma get_set_panel_other: "j \<noteq> i \<Longrightarrow> get_panel (set_panel i ax g) j = get_panel g j"
  by (simp add: set_panel_def get_panel_def split: option.splits)

lemma get_set_panel_same:
  "figure g \<noteq> None \<Longrightarrow> i < n_panels g \<Longrightarrow> get_panel (set_panel i ax g) i = ax"
  by (auto simp: set_panel_def get_panel_def n_panels_def split: option.splits)

lemma panel_field_updates:
  "get_panel (g\<lparr>axes := a\<rparr>) j = get_panel g j"
  "get_panel (g\<lparr>legend := l\<rparr>) j = get_panel g j"
  "get_panel (g\<lparr>results := r\<rparr>) j = get_panel g j"
  "n_panels (g\<lparr>axes := a\<rparr>) = n_panels g"
  "n_panels (g\<lparr>legend := l\<rparr>) = n_panels g"
  "n_panels (g\<lparr>results := r\<rparr>) = n_panels g"
  by (simp_all add: get_panel_def n_panels_def)

lemma after_strategy_no_generator:
  "axes g = None \<Longrightarrow> after_strategy g st s model metric eval_set = (Some TypeError, g, s)"
  by (simp add: after_strategy_def)

lemma after_strategy_exhausted:
  "axes g = Some [] \<Longrightarrow> after_strategy g st s model metric eval_set = (Some StopIteration, g, s)"
  by (simp add: after_strategy_def)

lemma after_strategy_consumes:
  assumes "axes g = Some (i # rest)"
  shows "fst (after_strategy g st s model metric eval_set) \<noteq> Some StopIteration"
    and "axes (fst (snd (after_strategy g st s model metric eval_set))) = Some rest"
    and "n_panels (fst (snd (after_strategy g st s model metric eval_set))) = n_panels g"
    and "(figure (fst (snd (after_strategy g st s model metric eval_set))) = None) = (figure g = None)"
    and "j \<noteq> i \<Longrightarrow> get_panel (fst (snd (after_strategy g st s model metric eval_set))) j
           = get_panel g j"
    and "legend g = Some lg \<Longrightarrow>
           legend (fst (snd (after_strategy g st s model metric eval_set))) = Some lg"
    and "results (fst (snd (after_strategy g st s model metric eval_set))) = results g"
  using assms
  by (auto simp: after_strategy_def Let_def set_panel_fields get_set_panel_other
        panel_field_updates
        dest: plot_lines_error
        split: option.splits prod.splits list.splits)

lemma before_strategy_gsc: "fst (before_strategy g st s) = g\<lparr>results := Some (next_ref st)\<rparr>"
  by (simp add: before_strategy_def Let_def)

lemma before_strategy_attaches:
  "snd (snd (before_strategy g st s)) =
     s\<lparr>callbacks := Some (observer_list s @ [Aggregator (strategy_callback g) (next_ref st)])\<rparr>"
  by (simp add: before_strategy_def observer_list_def Let_def split: option.splits list.splits)

lemma after_strategy_pops:
  assumes "fst (after_strategy g st s model metric eval_set) = None"
  shows "observer_list s \<noteq> []
     \<and> snd (snd (after_strategy g st s model metric eval_set)) =
         s\<lparr>callbacks := Some (butlast (observer_list s))\<rparr>"
  using assms
  by (auto simp: after_strategy_def observer_list_def Let_def
        split: sum.splits option.splits prod.splits list.splits)

lemma after_strategy_raises:
  assumes "fst (after_strategy g st s model metric eval_set) \<noteq> None"
  shows "snd (snd (after_strategy g st s model metric eval_set)) = s"
  using assms
  by (auto simp: after_strategy_def Let_def
        split: sum.splits option.splits prod.splits list.splits)

lemma after_strategy_without_iterations:
  "fst (after_strategy (fst (before_strategy g st s)) (fst (snd (before_strategy g st s)))
          s' model metric eval_set) =
     (case axes g of
        None \<Rightarrow> Some TypeError
      | Some [] \<Rightarrow> Some StopIteration
      | Some (i # rest) \<Rightarrow> Some ValueError)"
  by (simp add: after_strategy_def before_strategy_def deref_def plot_lines_def
        names_parameter_def Let_def split: option.splits list.splits)

lemma grid_state_before_strategy:
  "grid_state N k g \<Longrightarrow> grid_state N k (fst (before_strategy g st s))"
  by (simp add: before_strategy_gsc grid_state_def panel_field_updates)

lemma grid_state_after_strategy:
  assumes "grid_state N k g"
  shows "grid_state N (Suc k) (fst (snd (after_strategy g st s model metric eval_set)))"
proof (cases "k < N")
  case False
  then have "axes g = Some []" using assms by (simp add: grid_state_def)
  then have "after_strategy g st s model metric eval_set = (Some StopIteration, g, s)"
    by (rule after_strategy_exhausted)
  then show ?thesis using assms False by (simp add: grid_state_def)
next
  case True
  then have ax: "axes g = Some (k # [Suc k..<N])"
    using assms by (simp add: grid_state_def upt_conv_Cons)
  show ?thesis
    using assms after_strategy_consumes(2,3,4)[OF ax, of st s model metric eval_set]
      after_strategy_consumes(5)[OF ax, of _ st s model metric eval_set]
    by (auto simp: grid_state_def)
qed

lemma grid_state_do_call:
  "grid_state N k g \<Longrightarrow> grid_state N (if is_after c then Suc k else k) (do_call g c)"
  by (cases c) (simp_all add: grid_state_before_strategy grid_state_after_strategy)

lemma grid_state_do_calls:
  "grid_state N k g \<Longrightarrow> grid_state N (k + count_after cs) (do_calls g cs)"
proof (induction cs arbitrary: g k)
  case Nil
  then show ?case by (simp add: count_after_def)
next
  case (Cons c cs)
  from grid_state_do_call[OF Cons.prems, of c]
  have "grid_state N ((if is_after c then Suc k else k) + count_after cs) (do_calls (do_call g c) cs)"
    by (rule Cons.IH)
  then show ?case by (cases "is_after c") (simp_all add: count_after_def)
qed

lemma before_task_ok:
  "before_task_locals cd sts f = Inr l \<Longrightarrow>
   before_task g cd sts f =
     (None, g\<lparr>figure := Some (subplots (rows l) (cols l) (cols l * 4, rows l * 4)),
              axes := Some [0..<rows l * cols l]\<rparr>)"
  by (simp add: before_task_def Let_def subplots_def)

lemma before_task_grid_state:
  "before_task_locals cd sts f = Inr l \<Longrightarrow>
   grid_state (rows l * cols l) 0 (snd (before_task g cd sts f))"
  by (simp add: before_task_ok grid_state_def n_panels_def get_panel_def subplots_def)

lemma locals_capacity:
  assumes "before_task_locals cd sts f = Inr l"
  shows "num_axes l \<le> rows l * cols l"
proof -
  from assms obtain tc tcfg n r where
    l: "l = \<lparr>total_curves = tc, total_configs = tcfg, num_axes = n, cols = ceil_sqrt n, rows = r\<rparr>"
    and r: "ceil_div n (ceil_sqrt n) = Inr r"
    by (auto simp: before_task_locals_def Let_def split: sum.splits prod.splits)
  from r have c: "0 < ceil_sqrt n" and "r = (n + ceil_sqrt n - 1) div ceil_sqrt n"
    by (auto simp: ceil_div_def split: if_splits)
  then show ?thesis using ceil_div_covers[OF c, of n] by (simp add: l)
qed

lemma legend_do_call: "legend g = Some lg \<Longrightarrow> legend (do_call g c) = Some lg"
proof (cases c)
  case (BeforeStrategy st s)
  assume "legend g = Some lg"
  then show ?thesis by (simp add: BeforeStrategy before_strategy_gsc)
next
  case (AfterStrategy st s model metric eval_set)
  assume lg: "legend g = Some lg"
  show ?thesis
  proof (cases "axes g")
    case None
    then show ?thesis using lg by (simp add: AfterStrategy after_strategy_no_generator)
  next
    case (Some rem)
    show ?thesis
    proof (cases rem)
      case Nil
      then show ?thesis using lg Some by (simp add: AfterStrategy after_strategy_exhausted)
    next
      case (Cons i rest)
      then have "axes g = Some (i # rest)" using Some by simp
      from after_strategy_consumes(6)[OF this lg] show ?thesis by (simp add: AfterStrategy)
    qed
  qed
qed

lemma legend_do_calls: "legend g = Some lg \<Longrightarrow> legend (do_calls g cs) = Some lg"
  by (induction cs arbitrary: g) (simp_all add: legend_do_call)

lemma before_task_keeps:
  "legend (snd (before_task g cd sts f)) = legend g"
  "results (snd (before_task g cd sts f)) = results g"
  "path (snd (before_task g cd sts f)) = path g"
  by (simp_all add: before_task_def Let_def split: sum.splits)

lemma in_legend_title:
  "get_legend_handles_labels (ax\<lparr>panel_title := t\<rparr>) = get_legend_handles_labels ax"
  by (simp add: get_legend_handles_labels_def)

lemma first_capture:
  assumes "legend g = None" and "axes g = Some (i # rest)" and "figure g \<noteq> None"
    and "i < n_panels g"
    and "fst (after_strategy g st s model metric eval_set) = None"
  shows "legend (fst (snd (after_strategy g st s model metric eval_set))) =
     Some (get_legend_handles_labels
             (get_panel (fst (snd (after_strategy g st s model metric eval_set))) i))"
  using assms
  by (auto simp: after_strategy_def Let_def set_panel_fields get_set_panel_same
        panel_field_updates in_legend_title
        split: option.splits prod.splits list.splits)

section \<open>Example runs: evaluation\<close>

lemma example_locals: "before_task_locals example_curve_data example_strategies no_filters =
       Inr \<lparr>total_curves = 4, total_configs = 2, num_axes = 8, cols = 3, rows = 3\<rparr>"
  by (simp add: before_task_locals_def example_counts_no_filters ceil_sqrt_def ceil_div_def)

lemma upt9: "[0..<9] = [0, 1, 2, 3, 4, 5, 6, 7, 8]"
  by code_simp

lemma example_task_eq:
  "example_task = \<lparr>strategy_callback = LearningCurveStrategyCallback, path = Some ''out'',
      figure = Some (subplots 3 3 (12, 12)), axes = Some [0, 1, 2, 3, 4, 5, 6, 7, 8],
      legend = None, results = None\<rparr>"
  using before_task_ok[OF example_locals, of "init_gsc LearningCurveStrategyCallback (Some ''out'')"] upt9
  by (simp add: example_task_def init_gsc_def)

lemma blank_panel_fields:
  "panel_lines blank_panel = []"
  "panel_title blank_panel = None"
  by (simp_all add: blank_panel_def)

lemma subplots_3_3:
  "subplots 3 3 figsize =
     \<lparr>fig_rows = 3, fig_cols = 3, fig_size = figsize,
      fig_panels = [blank_panel, blank_panel, blank_panel, blank_panel, blank_panel,
                    blank_panel, blank_panel, blank_panel, blank_panel],
      fig_suptitle = None, fig_legend = None, fig_tight_layout = False\<rparr>"
proof -
  have "replicate 9 blank_panel =
      [blank_panel, blank_panel, blank_panel, blank_panel, blank_panel,
       blank_panel, blank_panel, blank_panel, blank_panel]"
    by (simp add: numeral_eq_Suc)
  then show ?thesis by (simp add: subplots_def)
qed

lemmas run_defs =
  subplots_3_3 blank_panel_fields empty_store_def fresh_strategy_def two_iterations_def
  one_iteration_def strategy_run_def before_strategy_def after_strategy_def iterate_def
  plot_lines_def names_parameter_def learning_curve_first_call learning_curve_later_call
  deref_def get_panel_def set_panel_def Let_def lineplot_def AList.delete_eq
  get_legend_handles_labels_def in_legend_def title_of_def

lemmas example_defs =
  attached_callback_def attached_strategy_def iterated_store_def other_store_def
  observed_strategy_def first_task_def second_task_def

lemma run9: "fst (strategy_runs example_task empty_store fresh_strategy ''m1'' ''mse'' ''train''
         [two_iterations, two_iterations, two_iterations, two_iterations, two_iterations,
          two_iterations, two_iterations, two_iterations, two_iterations])
      = [None, None, None, None, None, None, None, None, None]"
  by (simp add: example_task_eq run_defs)

lemma first_task_eval:
  "legend first_task =
     Some ([\<lparr>line_label = ''error'', line_x = [IntV 0, IntV 1],
             line_y = [FloatV (1 / 2), FloatV (1 / 4)]\<rparr>], [''error''])"
  by (simp add: first_task_def example_task_eq run_defs)

lemma first_task_fields:
  "axes first_task = Some [1, 2, 3, 4, 5, 6, 7, 8]" "figure first_task \<noteq> None"
  "path first_task = Some ''out''"
  by (simp_all add: first_task_def example_task_eq run_defs)

section \<open>Claims about the panel sequence, the legend and the observer list\<close>

text \<open>
  C1, as the code has it. After a successful \<^verbatim>\<open>before_task\<close> the figure has
  \<open>rows * cols\<close> panels, which is at least \<^verbatim>\<open>num_axes\<close>, and the generator runs over all
  of them. Whatever \<^verbatim>\<open>before_strategy\<close> and \<^verbatim>\<open>after_strategy\<close> calls follow, the
  generator has yielded one panel per \<^verbatim>\<open>after_strategy\<close> call, in order, the panels
  not yet yielded are blank, so each call gets a fresh one, and a further
  \<^verbatim>\<open>after_strategy\<close> raises \<^verbatim>\<open>StopIteration\<close> exactly when \<open>rows * cols\<close> panels have
  been yielded. It never starts over.
\<close>

theorem panel_sequence_capacity:
  assumes "before_task_locals cd sts f = Inr l"
  shows "fst (before_task g cd sts f) = None
     \<and> num_axes l \<le> rows l * cols l
     \<and> n_panels (snd (before_task g cd sts f)) = rows l * cols l
     \<and> axes (do_calls (snd (before_task g cd sts f)) cs) = Some [count_after cs..<rows l * cols l]
     \<and> (\<forall>j. count_after cs \<le> j \<and> j < rows l * cols l \<longrightarrow>
           get_panel (do_calls (snd (before_task g cd sts f)) cs) j = blank_panel)
     \<and> ((fst (after_strategy (do_calls (snd (before_task g cd sts f)) cs) st s model metric eval_set)
            = Some StopIteration)
          = (rows l * cols l \<le> count_after cs))"
proof -
  let ?N = "rows l * cols l"
  let ?g = "do_calls (snd (before_task g cd sts f)) cs"
  have g0: "grid_state ?N 0 (snd (before_task g cd sts f))"
    using assms by (rule before_task_grid_state)
  have inv: "grid_state ?N (count_after cs) ?g"
    using grid_state_do_calls[OF g0, of cs] by simp
  have stop: "(fst (after_strategy ?g st s model metric eval_set) = Some StopIteration)
          = (?N \<le> count_after cs)"
  proof (cases "count_after cs < ?N")
    case True
    then have "axes ?g = Some (count_after cs # [Suc (count_after cs)..<?N])"
      using inv by (simp add: grid_state_def upt_conv_Cons)
    from after_strategy_consumes(1)[OF this] True show ?thesis by simp
  next
    case False
    then have "axes ?g = Some []" using inv by (simp add: grid_state_def)
    then show ?thesis using False by (simp add: after_strategy_exhausted)
  qed
  show ?thesis
    using assms g0 inv stop locals_capacity[OF assms]
    by (simp add: grid_state_def before_task_ok)
qed

theorem panel_sequence_capacity_witness:
  "before_task_locals example_curve_data example_strategies no_filters =
     Inr \<lparr>total_curves = 4, total_configs = 2, num_axes = 8, cols = 3, rows = 3\<rparr>
   \<and> n_panels example_task = 9
   \<and> axes (do_calls example_task
        [BeforeStrategy empty_store fresh_strategy,
         AfterStrategy iterated_store attached_strategy ''m1'' ''mse'' ''train'']) =
      Some [1, 2, 3, 4, 5, 6, 7, 8]
   \<and> get_panel (do_calls example_task
        [BeforeStrategy empty_store fresh_strategy,
         AfterStrategy iterated_store attached_strategy ''m1'' ''mse'' ''train'']) 1 = blank_panel
   \<and> fst (after_strategy (do_calls example_task
        [BeforeStrategy empty_store fresh_strategy,
         AfterStrategy iterated_store attached_strategy ''m1'' ''mse'' ''train''])
        iterated_store attached_strategy ''m1'' ''mse'' ''train'') \<noteq> Some StopIteration"
proof -
  have upt: "[Suc 0..<9] = [1, 2, 3, 4, 5, 6, 7, 8]" by code_simp
  show ?thesis
    using panel_sequence_capacity[OF example_locals,
        of "init_gsc LearningCurveStrategyCallback (Some ''out'')"
           "[BeforeStrategy empty_store fresh_strategy,
             AfterStrategy iterated_store attached_strategy ''m1'' ''mse'' ''train'']"
           iterated_store attached_strategy "''m1''" "''mse''" "''train''"]
      example_locals upt
    by (simp add: example_task_def[symmetric] count_after_def)
qed

text \<open>
  C1 as stated fails: on the specification's example \<^verbatim>\<open>num_axes\<close> is 8 and the grid has
  9 panels, and nine strategy runs in a row all complete; the ninth \<^verbatim>\<open>after_strategy\<close>
  is given the spare panel instead of an exhaustion error.
\<close>

theorem panel_sequence_counterexample:
  "before_task_locals example_curve_data example_strategies no_filters =
     Inr \<lparr>total_curves = 4, total_configs = 2, num_axes = 8, cols = 3, rows = 3\<rparr>
   \<and> example_task = snd (before_task (init_gsc LearningCurveStrategyCallback (Some ''out''))
                           example_curve_data example_strategies no_filters)
   \<and> n_panels example_task = 9
   \<and> fst (strategy_runs example_task empty_store fresh_strategy ''m1'' ''mse'' ''train''
         [two_iterations, two_iterations, two_iterations, two_iterations, two_iterations,
          two_iterations, two_iterations, two_iterations, two_iterations])
      = [None, None, None, None, None, None, None, None, None]"
  using example_locals run9
  by (simp add: example_task_def[symmetric]) (simp add: example_task_eq n_panels_def subplots_def)

text \<open>
  C3, as the code has it. \<^verbatim>\<open>before_task\<close> reassigns \<^verbatim>\<open>figure\<close> and \<^verbatim>\<open>axes\<close> and
  leaves \<^verbatim>\<open>legend\<close> and \<^verbatim>\<open>results\<close> as they are; \<^verbatim>\<open>before_strategy\<close> leaves
  \<^verbatim>\<open>legend\<close> as it is. A legend that has been captured is left unchanged by every
  later \<^verbatim>\<open>before_strategy\<close> and \<^verbatim>\<open>after_strategy\<close> call, whatever series the
  results hold. While no legend has been captured, an
  \<^verbatim>\<open>after_strategy\<close> that completes captures the legend entries of the panel it drew.
\<close>

theorem legend_first_wins:
  "legend (snd (before_task g cd sts f)) = legend g
   \<and> results (snd (before_task g cd sts f)) = results g
   \<and> (before_task_locals cd sts f = Inr l \<longrightarrow>
        figure (snd (before_task g cd sts f)) =
          Some (subplots (rows l) (cols l) (cols l * 4, rows l * 4))
        \<and> axes (snd (before_task g cd sts f)) = Some [0..<rows l * cols l])
   \<and> legend (fst (before_strategy g st s)) = legend g
   \<and> (legend g = Some lg \<longrightarrow> legend (do_calls g cs) = Some lg)
   \<and> (legend g = None \<and> axes g = Some (i # rest) \<and> figure g \<noteq> None \<and> i < n_panels g
        \<and> fst (after_strategy g st s model metric eval_set) = None \<longrightarrow>
        legend (fst (snd (after_strategy g st s model metric eval_set))) =
          Some (get_legend_handles_labels
                  (get_panel (fst (snd (after_strategy g st s model metric eval_set))) i)))"
proof (intro conjI impI)
  show "legend (snd (before_task g cd sts f)) = legend g" by (rule before_task_keeps)
  show "results (snd (before_task g cd sts f)) = results g" by (rule before_task_keeps)
  show "legend (fst (before_strategy g st s)) = legend g" by (simp add: before_strategy_gsc)
next
  assume l: "before_task_locals cd sts f = Inr l"
  show "figure (snd (before_task g cd sts f)) =
          Some (subplots (rows l) (cols l) (cols l * 4, rows l * 4))"
    by (simp add: before_task_ok[OF l])
  show "axes (snd (before_task g cd sts f)) = Some [0..<rows l * cols l]"
    by (simp add: before_task_ok[OF l])
next
  assume "legend g = Some lg"
  then show "legend (do_calls g cs) = Some lg" by (rule legend_do_calls)
next
  assume "legend g = None \<and> axes g = Some (i # rest) \<and> figure g \<noteq> None \<and> i < n_panels g
        \<and> fst (after_strategy g st s model metric eval_set) = None"
  then show "legend (fst (snd (after_strategy g st s model metric eval_set))) =
          Some (get_legend_handles_labels
                  (get_panel (fst (snd (after_strategy g st s model metric eval_set))) i))"
    by (intro first_capture) auto
qed

theorem legend_first_wins_witness:
  "legend (snd (before_task first_task example_curve_data example_strategies no_filters)) =
     Some ([\<lparr>line_label = ''error'', line_x = [IntV 0, IntV 1],
             line_y = [FloatV (1 / 2), FloatV (1 / 4)]\<rparr>], [''error''])
   \<and> axes (snd (before_task first_task example_curve_data example_strategies no_filters)) =
       Some [0, 1, 2, 3, 4, 5, 6, 7, 8]
   \<and> legend (do_calls first_task
        [BeforeStrategy empty_store fresh_strategy,
         AfterStrategy other_store attached_strategy ''m1'' ''mse'' ''train'']) =
     Some ([\<lparr>line_label = ''error'', line_x = [IntV 0, IntV 1],
             line_y = [FloatV (1 / 2), FloatV (1 / 4)]\<rparr>], [''error''])
   \<and> legend attached_callback = None
   \<and> fst (after_strategy attached_callback iterated_store attached_strategy
             ''m1'' ''mse'' ''train'') = None
   \<and> legend (fst (snd (after_strategy attached_callback iterated_store attached_strategy
             ''m1'' ''mse'' ''train''))) =
     Some ([\<lparr>line_label = ''error'', line_x = [IntV 0, IntV 1],
             line_y = [FloatV (1 / 2), FloatV (1 / 4)]\<rparr>], [''error''])"
proof -
  have ok: "fst (after_strategy attached_callback iterated_store attached_strategy
             ''m1'' ''mse'' ''train'') = None"
    by (simp add: example_defs example_task_eq run_defs)
  have att: "legend attached_callback = None"
     "axes attached_callback = Some (0 # [1, 2, 3, 4, 5, 6, 7, 8])"
     "figure attached_callback \<noteq> None" "0 < n_panels attached_callback"
    by (simp_all add: example_defs example_task_eq run_defs n_panels_def)
  have panel: "get_legend_handles_labels
      (get_panel (fst (snd (after_strategy attached_callback iterated_store attached_strategy
             ''m1'' ''mse'' ''train''))) 0) =
     ([\<lparr>line_label = ''error'', line_x = [IntV 0, IntV 1],
             line_y = [FloatV (1 / 2), FloatV (1 / 4)]\<rparr>], [''error''])"
    by (simp add: example_defs example_task_eq run_defs)
  show ?thesis
    using legend_first_wins[where g = first_task and cd = example_curve_data
          and sts = example_strategies and f = no_filters
          and l = "\<lparr>total_curves = 4, total_configs = 2, num_axes = 8, cols = 3, rows = 3\<rparr>"
          and lg = "([\<lparr>line_label = ''error'', line_x = [IntV 0, IntV 1],
             line_y = [FloatV (1 / 2), FloatV (1 / 4)]\<rparr>], [''error''])"
          and cs = "[BeforeStrategy empty_store fresh_strategy,
             AfterStrategy other_store attached_strategy ''m1'' ''mse'' ''train'']"]
      legend_first_wins[where g = attached_callback and i = 0
          and rest = "[1, 2, 3, 4, 5, 6, 7, 8]" and st = iterated_store
          and s = attached_strategy and model = "''m1''" and metric = "''mse''"
          and eval_set = "''train''" and cd = example_curve_data
          and sts = example_strategies and f = no_filters
          and l = "\<lparr>total_curves = 4, total_configs = 2, num_axes = 8, cols = 3, rows = 3\<rparr>"
          and lg = "([], [])" and cs = "[]"]
      ok att panel example_locals first_task_eval upt9
    by simp
qed

text \<open>
  C3 as stated fails: the legend is not reset at the task boundary. After a first task
  whose panel shows the series recorded at iterations 0 and 1, a second
  \<^verbatim>\<open>before_task\<close> keeps that legend, and after the second task's first strategy run
  (one iteration, number 7) the callback's legend is still the first task's, not the
  entries of the second task's first panel.
\<close>

theorem legend_reset_counterexample:
  "legend first_task =
     Some ([\<lparr>line_label = ''error'', line_x = [IntV 0, IntV 1],
             line_y = [FloatV (1 / 2), FloatV (1 / 4)]\<rparr>], [''error''])
   \<and> legend (snd (before_task (fst (snd (after_task first_task [])))
                   example_curve_data example_strategies no_filters)) = legend first_task
   \<and> legend second_task = legend first_task
   \<and> get_legend_handles_labels (get_panel second_task 0) =
       ([\<lparr>line_label = ''error'', line_x = [IntV 7], line_y = [FloatV (1 / 8)]\<rparr>], [''error''])"
  by (simp add: second_task_def first_task_def example_task_eq after_task_def
        before_task_ok[OF example_locals] upt9 run_defs)

text \<open>
  C5, as the code has it. A \<^verbatim>\<open>plot_lines\<close> call with a series named \<^verbatim>\<open>self\<close>, \<^verbatim>\<open>x\<close>
  or \<^verbatim>\<open>ax\<close> raises \<^verbatim>\<open>TypeError\<close> and leaves the panel as it was. Of the other calls,
  one with fewer than two series raises \<^verbatim>\<open>ValueError\<close> and leaves the panel as it was;
  one with \<open>N \<ge> 2\<close> series (distinct names, as the keys of a dict are) that include
  the X series, the X series not empty and every series as long as it, raises nothing
  and adds exactly \<open>N - 1\<close> lines: one per remaining series, in order, each drawn against
  the X series under its own label.
\<close>

theorem plot_lines_precondition:
  "(names_parameter kwargs \<longrightarrow> plot_lines x ax kwargs = (Some TypeError, ax))
   \<and> (\<not> names_parameter kwargs \<and> length kwargs < 2 \<longrightarrow>
        plot_lines x ax kwargs = (Some ValueError, ax))
   \<and> (\<not> names_parameter kwargs \<and> 2 \<le> length kwargs \<and> distinct (map fst kwargs)
        \<and> map_of kwargs x = Some xs \<and> plottable xs kwargs \<longrightarrow>
        fst (plot_lines x ax kwargs) = None
        \<and> panel_lines (snd (plot_lines x ax kwargs)) =
            panel_lines ax
            @ map (\<lambda>(label, line). \<lparr>line_label = label, line_x = xs, line_y = line\<rparr>)
                (AList.delete x kwargs)
        \<and> length (panel_lines (snd (plot_lines x ax kwargs))) =
            length (panel_lines ax) + (length kwargs - 1))"
proof (intro conjI impI)
  assume "names_parameter kwargs"
  then show "plot_lines x ax kwargs = (Some TypeError, ax)" by (rule plot_lines_rebinds)
next
  assume "\<not> names_parameter kwargs \<and> length kwargs < 2"
  then show "plot_lines x ax kwargs = (Some ValueError, ax)" by (simp add: plot_lines_too_few)
next
  assume a: "\<not> names_parameter kwargs \<and> 2 \<le> length kwargs \<and> distinct (map fst kwargs)
        \<and> map_of kwargs x = Some xs \<and> plottable xs kwargs"
  then have ok: "plot_lines x ax kwargs =
     (None,
      ax\<lparr>panel_lines := panel_lines ax
             @ map (\<lambda>(label, line). \<lparr>line_label = label, line_x = xs, line_y = line\<rparr>)
                 (AList.delete x kwargs),
         panel_legend_visible := False, panel_xlabel := Some x, panel_ylabel := Some x,
         panel_grid := True\<rparr>)"
    by (simp add: plot_lines_ok)
  show "fst (plot_lines x ax kwargs) = None" by (simp add: ok)
  show "panel_lines (snd (plot_lines x ax kwargs)) =
            panel_lines ax
            @ map (\<lambda>(label, line). \<lparr>line_label = label, line_x = xs, line_y = line\<rparr>)
                (AList.delete x kwargs)"
    by (simp add: ok)
  have "Suc (length (AList.delete x kwargs)) = length kwargs"
    using a by (intro length_delete_present) auto
  then show "length (panel_lines (snd (plot_lines x ax kwargs))) =
            length (panel_lines ax) + (length kwargs - 1)"
    by (simp add: ok)
qed

theorem plot_lines_precondition_witness:
  "plot_lines ''iter'' blank_panel [(''iter'', [IntV 0, IntV 1])] = (Some ValueError, blank_panel)
   \<and> plottable [IntV 0, IntV 1]
        [(''iter'', [IntV 0, IntV 1]), (''error'', [FloatV (1 / 2), FloatV (1 / 4)])]
   \<and> fst (plot_lines ''iter'' blank_panel
        [(''iter'', [IntV 0, IntV 1]), (''error'', [FloatV (1 / 2), FloatV (1 / 4)])]) = None
   \<and> panel_lines (snd (plot_lines ''iter'' blank_panel
        [(''iter'', [IntV 0, IntV 1]), (''error'', [FloatV (1 / 2), FloatV (1 / 4)])])) =
      [\<lparr>line_label = ''error'', line_x = [IntV 0, IntV 1],
        line_y = [FloatV (1 / 2), FloatV (1 / 4)]\<rparr>]
   \<and> plot_lines ''iter'' blank_panel [(''ax'', [IntV 0, IntV 1])] = (Some TypeError, blank_panel)"
  using plot_lines_precondition[of "[(''iter'', [IntV 0, IntV 1])]" "''iter''" blank_panel "[]"]
    plot_lines_precondition[of "[(''iter'', [IntV 0, IntV 1]), (''error'', [FloatV (1 / 2), FloatV (1 / 4)])]"
       "''iter''" blank_panel "[IntV 0, IntV 1]"]
    plot_lines_precondition[of "[(''ax'', [IntV 0, IntV 1])]" "''iter''" blank_panel "[]"]
  by (simp add: blank_panel_def AList.delete_eq names_parameter_def plottable_def)

text \<open>
  C5 as stated fails: two series with distinct names that include the X series, one of
  them named \<^verbatim>\<open>x\<close>, do not give one line but a \<^verbatim>\<open>TypeError\<close> and an untouched panel,
  whether the series named \<^verbatim>\<open>x\<close> is a Y series or the X series itself; and a single
  series named \<^verbatim>\<open>x\<close> gives a \<^verbatim>\<open>TypeError\<close>, not the error of too few series.
\<close>

theorem plot_lines_counterexample:
  "2 \<le> length [(''iter'', [IntV 0, IntV 1]), (''x'', [FloatV (1 / 2), FloatV (1 / 4)])]
   \<and> distinct (map fst [(''iter'', [IntV 0, IntV 1]), (''x'', [FloatV (1 / 2), FloatV (1 / 4)])])
   \<and> map_of [(''iter'', [IntV 0, IntV 1]), (''x'', [FloatV (1 / 2), FloatV (1 / 4)])] ''iter''
       = Some [IntV 0, IntV 1]
   \<and> plot_lines ''iter'' blank_panel
        [(''iter'', [IntV 0, IntV 1]), (''x'', [FloatV (1 / 2), FloatV (1 / 4)])] =
      (Some TypeError, blank_panel)
   \<and> plot_lines ''x'' blank_panel
        [(''x'', [IntV 0, IntV 1]), (''y'', [FloatV (1 / 2), FloatV (1 / 4)])] =
      (Some TypeError, blank_panel)
   \<and> plot_lines ''x'' blank_panel [(''x'', [IntV 0, IntV 1])] = (Some TypeError, blank_panel)"
  by (simp add: plot_lines_def names_parameter_def)

text \<open>
  C6, as the code has it. \<^verbatim>\<open>before_strategy\<close> appends exactly one new aggregator to
  the strategy's observer list (a new one-element list when the attribute is \<^verbatim>\<open>None\<close>
  or empty). \<^verbatim>\<open>after_strategy\<close>, called on the strategy as \<^verbatim>\<open>before_strategy\<close> left it,
  with the callback and the store as they are by then, removes exactly the last
  element when it returns: the list then has the elements, and so the length, it had
  before the pair. When it raises, the list is left as \<^verbatim>\<open>before_strategy\<close> made it, one
  longer. A pair with no iteration in between always raises: there is no generator, or
  no panel left, or the results are still empty and \<^verbatim>\<open>plot_lines\<close> refuses them.
\<close>

theorem attach_detach_restores_callbacks:
  "observer_list (snd (snd (before_strategy g st s))) =
     observer_list s @ [Aggregator (strategy_callback g) (next_ref st)]
   \<and> observer_list (snd (snd (after_strategy g' st' (snd (snd (before_strategy g st s)))
                                model metric eval_set))) =
       (if fst (after_strategy g' st' (snd (snd (before_strategy g st s)))
                 model metric eval_set) = None
        then observer_list s
        else observer_list s @ [Aggregator (strategy_callback g) (next_ref st)])
   \<and> length (observer_list (snd (snd (after_strategy g' st'
                (snd (snd (before_strategy g st s))) model metric eval_set)))) =
       (if fst (after_strategy g' st' (snd (snd (before_strategy g st s)))
                 model metric eval_set) = None
        then length (observer_list s)
        else Suc (length (observer_list s)))
   \<and> fst (after_strategy (fst (before_strategy g st s)) (fst (snd (before_strategy g st s)))
            (snd (snd (before_strategy g st s))) model metric eval_set) =
       (case axes g of
          None \<Rightarrow> Some TypeError
        | Some [] \<Rightarrow> Some StopIteration
        | Some (i # rest) \<Rightarrow> Some ValueError)"
proof -
  let ?s1 = "snd (snd (before_strategy g st s))"
  let ?new = "Aggregator (strategy_callback g) (next_ref st)"
  let ?r = "after_strategy g' st' ?s1 model metric eval_set"
  have s1: "observer_list ?s1 = observer_list s @ [?new]"
    by (simp add: before_strategy_attaches observer_list_def)
  have s2: "observer_list (snd (snd ?r)) =
      (if fst ?r = None then observer_list s else observer_list s @ [?new])"
  proof (cases "fst ?r = None")
    case True
    from after_strategy_pops[OF True]
    have "snd (snd ?r) = ?s1\<lparr>callbacks := Some (butlast (observer_list ?s1))\<rparr>"
      by simp
    then have "observer_list (snd (snd ?r)) = butlast (observer_list ?s1)"
      by (simp add: observer_list_def)
    then show ?thesis using True s1 by simp
  next
    case False
    from after_strategy_raises[OF False] have "snd (snd ?r) = ?s1" .
    then show ?thesis using False s1 by simp
  qed
  have len: "length (observer_list (snd (snd ?r))) =
      (if fst ?r = None then length (observer_list s) else Suc (length (observer_list s)))"
    by (simp add: s2)
  show ?thesis
    using s1 s2 len
      after_strategy_without_iterations[of g st s ?s1 model metric eval_set]
    by simp
qed

theorem attach_detach_restores_callbacks_witness:
  "fst (after_strategy attached_callback iterated_store attached_strategy
          ''m1'' ''mse'' ''train'') = None
   \<and> observer_list observed_strategy = [Observer 1]
   \<and> observer_list attached_strategy = [Observer 1, Aggregator LearningCurveStrategyCallback 0]
   \<and> observer_list (snd (snd (after_strategy attached_callback iterated_store attached_strategy
          ''m1'' ''mse'' ''train''))) = [Observer 1]"
proof -
  have ok: "fst (after_strategy attached_callback iterated_store
              (snd (snd (before_strategy example_task empty_store observed_strategy)))
              ''m1'' ''mse'' ''train'') = None"
    by (simp add: example_defs example_task_eq run_defs)
  have obs: "observer_list observed_strategy = [Observer 1]"
    by (simp add: observer_list_def observed_strategy_def)
  show ?thesis
    using attach_detach_restores_callbacks[of example_task empty_store observed_strategy
        attached_callback iterated_store "''m1''" "''mse''" "''train''"] ok obs
    by (simp add: attached_strategy_def example_task_eq empty_store_def)
qed

text \<open>
  C6 as stated fails: a strategy run with no iteration, on a strategy with no
  observers, ends in \<^verbatim>\<open>ValueError\<close> (the results are empty), and the aggregator that
  \<^verbatim>\<open>before_strategy\<close> attached is still in the list after the pair.
\<close>

theorem attach_detach_counterexample:
  "observer_list fresh_strategy = []
   \<and> fst (strategy_run example_task empty_store fresh_strategy ''m1'' ''mse'' ''train'' []) =
       Some ValueError
   \<and> observer_list
        (snd (snd (snd (strategy_run example_task empty_store fresh_strategy
                          ''m1'' ''mse'' ''train'' [])))) =
       [Aggregator LearningCurveStrategyCallback 0]"
  by (simp add: observer_list_def example_task_eq run_defs)

text \<open>
  C8. With \<^verbatim>\<open>path\<close> unset, \<^verbatim>\<open>after_task\<close> raises and nothing is saved. With
  \<^verbatim>\<open>path\<close> set, on a callback that has its figure and a captured legend,
  \<^verbatim>\<open>after_task\<close> returns and has saved the decorated figure once, under
  \<^verbatim>\<open>os.path.join(path, file_name)\<close> with the aggregator's \<^verbatim>\<open>file_name\<close>. In every
  state, a call that returns has saved exactly there, and a call that raises has saved
  nothing.
\<close>

theorem after_task_saves_under_path:
  "(path g = None \<longrightarrow>
      fst (after_task g saved) \<noteq> None \<and> snd (snd (after_task g saved)) = saved)
   \<and> (path g = Some p \<and> figure g = Some fig \<and> legend g = Some lg \<longrightarrow>
        fst (after_task g saved) = None
        \<and> snd (snd (after_task g saved)) =
            saved @ [(os_path_join p (cb_file_name (strategy_callback g)),
                      fig\<lparr>fig_suptitle := Some (cb_name (strategy_callback g)),
                          fig_legend := Some lg, fig_tight_layout := True\<rparr>)])
   \<and> (fst (after_task g saved) = None \<longrightarrow>
        (\<exists>p fig'. path g = Some p
           \<and> snd (snd (after_task g saved)) =
               saved @ [(os_path_join p (cb_file_name (strategy_callback g)), fig')]))
   \<and> (fst (after_task g saved) \<noteq> None \<longrightarrow> snd (snd (after_task g saved)) = saved)"
proof (cases "figure g")
  case None
  then have "after_task g saved = (Some AttributeError, g, saved)"
    by (simp add: after_task_def)
  then show ?thesis using None by simp
next
  case fig: (Some fig0)
  show ?thesis
  proof (cases "legend g")
    case None
    then have "fst (after_task g saved) = Some TypeError"
      and "snd (snd (after_task g saved)) = saved"
      using fig by (simp_all add: after_task_def Let_def)
    then show ?thesis using None by simp
  next
    case lg: (Some lg0)
    show ?thesis
    proof (cases "path g")
      case None
      then have "fst (after_task g saved) = Some TypeError"
        and "snd (snd (after_task g saved)) = saved"
        using fig lg by (simp_all add: after_task_def Let_def)
      then show ?thesis using None by simp
    next
      case (Some p0)
      then have "fst (after_task g saved) = None"
        and "snd (snd (after_task g saved)) =
            saved @ [(os_path_join p0 (cb_file_name (strategy_callback g)),
                      fig0\<lparr>fig_suptitle := Some (cb_name (strategy_callback g)),
                           fig_legend := Some lg0, fig_tight_layout := True\<rparr>)]"
        using fig lg by (simp_all add: after_task_def Let_def)
      then show ?thesis using Some fig lg by auto
    qed
  qed
qed

theorem after_task_saves_under_path_witness:
  "path (first_task\<lparr>path := None\<rparr>) = None
   \<and> fst (after_task (first_task\<lparr>path := None\<rparr>) []) = Some TypeError
   \<and> snd (snd (after_task (first_task\<lparr>path := None\<rparr>) [])) = []
   \<and> path first_task = Some ''out''
   \<and> fst (after_task first_task []) = None
   \<and> map fst (snd (snd (after_task first_task []))) = [''out/learning_curves'']"
proof -
  obtain fig where fig: "figure first_task = Some fig"
    using first_task_fields(2) by auto
  have lg: "legend first_task =
     Some ([\<lparr>line_label = ''error'', line_x = [IntV 0, IntV 1],
             line_y = [FloatV (1 / 2), FloatV (1 / 4)]\<rparr>], [''error''])"
    by (rule first_task_eval)
  have cls: "strategy_callback first_task = LearningCurveStrategyCallback"
    by (simp add: first_task_def example_task_eq run_defs)
  have err: "fst (after_task (first_task\<lparr>path := None\<rparr>) []) = Some TypeError"
    using fig lg by (simp add: after_task_def Let_def)
  show ?thesis
    using after_task_saves_under_path[of "first_task\<lparr>path := None\<rparr>" "[]"]
      after_task_saves_under_path[of first_task "[]" "''out''" fig _]
      fig lg cls first_task_fields(3) err
    by (auto simp: os_path_join_def)
qed

end
